theory Spec2Isabelle
  imports
    Complex_Main
    "HOL-Library.Char_ord"
    "HOL-Library.List_Lexorder"
    "HOL-Library.Product_Lexorder"
begin

section \<open>Smart Media Bot: quota engine, media pipeline, summarizer and router\<close>

text \<open>
  A shallow embedding of \<^verbatim>\<open>src/smart_media_bot.py\<close>. Python's unbounded integers are
  \<^typ>\<open>int\<close>, Python strings are \<^typ>\<open>string\<close> (one \<^typ>\<open>char\<close> stands for one code point),
  dictionaries are maps, \<^verbatim>\<open>None\<close> is \<^term>\<open>None\<close>. Mutation of the module-level
  \<^verbatim>\<open>user_manager\<close> is explicit state passing. Everything the program asks of the outside
  world (the clock, the file system, yt-dlp, the HTTP fetch) is a parameter.
\<close>

subsection \<open>Configuration\<close>

text \<open>
  \<^verbatim>\<open>BotConfig\<close>: the two free-tier limits are read from the environment when the module is
  loaded (\<^verbatim>\<open>int(os.getenv("MAX_FREE_DOWNLOADS", 3))\<close>), so they are fields of a record;
  the other limits are literals of the source.
\<close>

record BotConfig =
  MAX_FREE_DOWNLOADS :: int
  MAX_FREE_SUMMARIES :: int

definition default_config :: BotConfig where
  "default_config = \<lparr>MAX_FREE_DOWNLOADS = 3, MAX_FREE_SUMMARIES = 5\<rparr>"

definition MAX_PREMIUM_DOWNLOADS :: int where
  "MAX_PREMIUM_DOWNLOADS = 100"

definition MAX_PREMIUM_SUMMARIES :: int where
  "MAX_PREMIUM_SUMMARIES = 50"

definition FREE_MAX_FILE_SIZE :: int where
  "FREE_MAX_FILE_SIZE = 50 * 1024 * 1024"

definition PREMIUM_MAX_FILE_SIZE :: int where
  "PREMIUM_MAX_FILE_SIZE = 500 * 1024 * 1024"

subsection \<open>The clock\<close>

text \<open>
  One reading of \<^verbatim>\<open>datetime.now()\<close>: its calendar date and its time of day, both already
  in ISO format. An operation that reads the clock takes the reading as an argument; the
  readings of one call are taken to fall on the same calendar date.
\<close>

record datetime =
  date_iso :: string
  time_iso :: string

definition isoformat :: "datetime \<Rightarrow> string" where
  "isoformat now = date_iso now @ ''T'' @ time_iso now"

subsection \<open>\<^verbatim>\<open>str(user_id)\<close>\<close>

definition digit_char :: "nat \<Rightarrow> char" where
  "digit_char d = char_of (48 + d)"

function dec_digits :: "nat \<Rightarrow> string" where
  "dec_digits n =
     (if n < 10 then [digit_char n] else dec_digits (n div 10) @ [digit_char (n mod 10)])"
  by pat_completeness auto
termination
  by (relation "measure (\<lambda>n. n)") auto

declare dec_digits.simps [simp del]

definition str :: "int \<Rightarrow> string" where
  "str i = (if i < 0 then CHR ''-'' # dec_digits (nat (- i)) else dec_digits (nat i))"

subsection \<open>User records and the user manager\<close>

record user =
  is_subscribed :: bool
  subscription_date :: "string option"
  downloads_today :: int
  summaries_today :: int
  last_reset :: string
  is_premium :: bool
  premium_expires :: "string option"
  premium_started :: "string option"
  total_downloads :: int
  total_summaries :: int
  referral_code :: "string option"
  referred_by :: "string option"

text \<open>
  \<^verbatim>\<open>UserManager\<close>: \<open>users\<close> is the dictionary in memory, \<open>persisted\<close> is the table held
  by the file \<^verbatim>\<open>user_data.json\<close>. \<open>writable\<close> says whether writing that file succeeds:
  \<^verbatim>\<open>save_user_data\<close> catches every exception of the write and only logs it, and a failed
  write is taken to leave the file as it was.
\<close>

record UserManager =
  users :: "string \<rightharpoonup> user"
  persisted :: "string \<rightharpoonup> user"
  writable :: bool

text \<open>\<^verbatim>\<open>load_user_data\<close>: a missing or unreadable file gives the empty table.\<close>

definition load_user_data :: "(string \<rightharpoonup> user) option \<Rightarrow> (string \<rightharpoonup> user)" where
  "load_user_data file = (case file of None \<Rightarrow> Map.empty | Some t \<Rightarrow> t)"

definition save_user_data :: "UserManager \<Rightarrow> UserManager" where
  "save_user_data um = (if writable um then um\<lparr>persisted := users um\<rparr> else um)"

definition new_user :: "datetime \<Rightarrow> user" where
  "new_user now =
     \<lparr>is_subscribed = False,
      subscription_date = None,
      downloads_today = 0,
      summaries_today = 0,
      last_reset = date_iso now,
      is_premium = False,
      premium_expires = None,
      premium_started = None,
      total_downloads = 0,
      total_summaries = 0,
      referral_code = None,
      referred_by = None\<rparr>"

text \<open>
  \<^verbatim>\<open>get_user\<close> returns the stored dictionary itself, and its callers mutate it in place.
  In the model the caller gets the record and writes the changed record back under the
  same key with \<open>put_user\<close>.
\<close>

definition get_user :: "UserManager \<Rightarrow> int \<Rightarrow> datetime \<Rightarrow> user \<times> UserManager" where
  "get_user um user_id now =
     (case users um (str user_id) of
        None \<Rightarrow> (new_user now, um\<lparr>users := (users um)(str user_id \<mapsto> new_user now)\<rparr>)
      | Some u \<Rightarrow> (u, um))"

definition put_user :: "UserManager \<Rightarrow> int \<Rightarrow> user \<Rightarrow> UserManager" where
  "put_user um user_id u = um\<lparr>users := (users um)(str user_id \<mapsto> u)\<rparr>"

text \<open>\<^verbatim>\<open>if referral_code:\<close> holds for a string that is neither \<^verbatim>\<open>None\<close> nor empty.\<close>

definition truthy_str :: "string option \<Rightarrow> bool" where
  "truthy_str s = (case s of None \<Rightarrow> False | Some t \<Rightarrow> t \<noteq> [])"

definition subscribe_user :: "UserManager \<Rightarrow> int \<Rightarrow> string option \<Rightarrow> datetime \<Rightarrow> UserManager" where
  "subscribe_user um user_id code now =
     (let (u, um1) = get_user um user_id now;
          u1 = u\<lparr>is_subscribed := True, subscription_date := Some (isoformat now)\<rparr>;
          u2 = (if truthy_str code then u1\<lparr>referred_by := code\<rparr> else u1)
      in save_user_data (put_user um1 user_id u2))"

text \<open>
  \<^verbatim>\<open>upgrade_to_premium\<close>; \<open>expires\<close> is \<^verbatim>\<open>(datetime.now() + timedelta(days=30)).isoformat()\<close>,
  computed by the datetime library.
\<close>

definition upgrade_to_premium :: "UserManager \<Rightarrow> int \<Rightarrow> datetime \<Rightarrow> string \<Rightarrow> UserManager" where
  "upgrade_to_premium um user_id now expires =
     (let (u, um1) = get_user um user_id now;
          u1 = u\<lparr>is_premium := True, premium_started := Some (isoformat now),
                 premium_expires := Some expires\<rparr>
      in save_user_data (put_user um1 user_id u1))"

definition is_subscribed_user :: "UserManager \<Rightarrow> int \<Rightarrow> datetime \<Rightarrow> bool \<times> UserManager" where
  "is_subscribed_user um user_id now =
     (let (u, um1) = get_user um user_id now in (is_subscribed u, um1))"

definition reset_daily_limits :: "UserManager \<Rightarrow> int \<Rightarrow> datetime \<Rightarrow> UserManager" where
  "reset_daily_limits um user_id now =
     (let (u, um1) = get_user um user_id now;
          today = date_iso now
      in if last_reset u \<noteq> today
         then save_user_data
                (put_user um1 user_id
                   (u\<lparr>downloads_today := 0, summaries_today := 0, last_reset := today\<rparr>))
         else um1)"

text \<open>
  \<^verbatim>\<open>can_download\<close> holds on to the dictionary it got before the reset; the reset mutates
  that same dictionary, so the comparison reads the counters after the reset.
\<close>

definition can_download :: "BotConfig \<Rightarrow> UserManager \<Rightarrow> int \<Rightarrow> datetime \<Rightarrow> bool \<times> UserManager" where
  "can_download cfg um user_id now =
     (let (u, um1) = get_user um user_id now
      in if \<not> is_subscribed u then (False, um1)
         else
           (let um2 = reset_daily_limits um1 user_id now;
                (u2, um3) = get_user um2 user_id now
            in if is_premium u2 then (downloads_today u2 < MAX_PREMIUM_DOWNLOADS, um3)
               else (downloads_today u2 < MAX_FREE_DOWNLOADS cfg, um3)))"

definition can_summarize :: "BotConfig \<Rightarrow> UserManager \<Rightarrow> int \<Rightarrow> datetime \<Rightarrow> bool \<times> UserManager" where
  "can_summarize cfg um user_id now =
     (let (u, um1) = get_user um user_id now
      in if \<not> is_subscribed u then (False, um1)
         else
           (let um2 = reset_daily_limits um1 user_id now;
                (u2, um3) = get_user um2 user_id now
            in if is_premium u2 then (summaries_today u2 < MAX_PREMIUM_SUMMARIES, um3)
               else (summaries_today u2 < MAX_FREE_SUMMARIES cfg, um3)))"

definition get_max_file_size :: "UserManager \<Rightarrow> int \<Rightarrow> datetime \<Rightarrow> int \<times> UserManager" where
  "get_max_file_size um user_id now =
     (let (u, um1) = get_user um user_id now
      in if is_premium u then (PREMIUM_MAX_FILE_SIZE, um1) else (FREE_MAX_FILE_SIZE, um1))"

definition increment_download :: "UserManager \<Rightarrow> int \<Rightarrow> datetime \<Rightarrow> UserManager" where
  "increment_download um user_id now =
     (let (u, um1) = get_user um user_id now
      in save_user_data
           (put_user um1 user_id
              (u\<lparr>downloads_today := downloads_today u + 1,
                 total_downloads := total_downloads u + 1\<rparr>)))"

definition increment_summary :: "UserManager \<Rightarrow> int \<Rightarrow> datetime \<Rightarrow> UserManager" where
  "increment_summary um user_id now =
     (let (u, um1) = get_user um user_id now
      in save_user_data
           (put_user um1 user_id
              (u\<lparr>summaries_today := summaries_today u + 1,
                 total_summaries := total_summaries u + 1\<rparr>)))"

subsection \<open>Media downloader\<close>

text \<open>
  An entry of the metadata dictionary \<^verbatim>\<open>info\<close> that yt-dlp returns: the key may be
  missing, present with the value \<^verbatim>\<open>None\<close>, or present with a value. Sizes and
  durations are integers.
\<close>

datatype 'a field = Absent | PyNone | Val 'a

text \<open>\<^verbatim>\<open>info.get(key)\<close> and \<^verbatim>\<open>info.get(key, default)\<close>.\<close>

definition dict_get :: "'a field \<Rightarrow> 'a option" where
  "dict_get f = (case f of Absent \<Rightarrow> None | PyNone \<Rightarrow> None | Val v \<Rightarrow> Some v)"

definition dict_get_default :: "'a field \<Rightarrow> 'a \<Rightarrow> 'a option" where
  "dict_get_default f d = (case f of Absent \<Rightarrow> Some d | PyNone \<Rightarrow> None | Val v \<Rightarrow> Some v)"

record info =
  info_filesize :: "int field"
  info_filesize_approx :: "int field"
  info_title :: "string field"
  info_duration :: "int field"
  info_uploader :: "string field"
  info_description :: "string field"

text \<open>Truth value of a number or \<^verbatim>\<open>None\<close>, and Python's \<^verbatim>\<open>a or b\<close> on them.\<close>

definition truthy_int :: "int option \<Rightarrow> bool" where
  "truthy_int v = (case v of None \<Rightarrow> False | Some n \<Rightarrow> n \<noteq> 0)"

definition py_or :: "int option \<Rightarrow> int option \<Rightarrow> int option" where
  "py_or a b = (if truthy_int a then a else b)"

record ydl_opts =
  format :: string
  extractaudio :: bool
  preferredquality :: "string option"

text \<open>
  What yt-dlp does for a URL is a parameter: \<open>extract_info\<close> is
  \<^verbatim>\<open>ydl.extract_info(url, download=False)\<close> (\<open>Inl\<close> is the message of the exception it
  raises), \<open>download\<close> is \<^verbatim>\<open>ydl.download([url])\<close>, the transfer of the payload (\<open>Some\<close>
  is the message of the exception it raises), \<open>prepare_filename\<close> names the local file.
\<close>

record ydl =
  extract_info :: "ydl_opts \<Rightarrow> string \<Rightarrow> string + info"
  download :: "ydl_opts \<Rightarrow> string \<Rightarrow> string option"
  prepare_filename :: "ydl_opts \<Rightarrow> info \<Rightarrow> string"

record media =
  filepath :: string
  title :: "string option"
  duration :: "int option"
  uploader :: "string option"
  description :: string

text \<open>
  The error of a failed download. For a file over the limit the source formats a message
  from the observed size, the tier's name and the limit (both sizes as megabytes with one
  decimal); the model keeps the three values the message is made of.
\<close>

datatype download_error = FileTooLarge int string int | DownloadFailed string

datatype download_result = Success media | Failure download_error

datatype io_event = ExtractInfo string | Download string | HttpGet string

text \<open>\<^verbatim>\<open>filename.rsplit(".", 1)[0]\<close>: what stands before the last dot, or all of it.\<close>

definition rsplit_dot_head :: "string \<Rightarrow> string" where
  "rsplit_dot_head s =
     (if CHR ''.'' \<in> set s then rev (tl (dropWhile (\<lambda>c. c \<noteq> CHR ''.'') (rev s))) else s)"

definition make_ydl_opts :: "user \<Rightarrow> string \<Rightarrow> ydl_opts" where
  "make_ydl_opts u format_type =
     (if format_type = ''audio''
      then \<lparr>format = ''bestaudio/best'', extractaudio = True,
            preferredquality = Some (if is_premium u then ''320'' else ''128'')\<rparr>
      else \<lparr>format = (if is_premium u then ''best[height<=1080]/best''
                       else ''best[filesize<50M]/best[height<=480]''),
            extractaudio = False, preferredquality = None\<rparr>)"

definition make_description :: "info \<Rightarrow> string" where
  "make_description i =
     (case dict_get (info_description i) of
        None \<Rightarrow> []
      | Some d \<Rightarrow> if d \<noteq> [] then take 500 d @ ''...'' else [])"

definition make_media :: "ydl \<Rightarrow> ydl_opts \<Rightarrow> string \<Rightarrow> info \<Rightarrow> media" where
  "make_media y opts format_type i =
     \<lparr>filepath = (if format_type = ''audio''
                  then rsplit_dot_head (prepare_filename y opts i) @ ''.mp3''
                  else prepare_filename y opts i),
      title = dict_get_default (info_title i) ''Unknown'',
      duration = dict_get_default (info_duration i) 0,
      uploader = dict_get_default (info_uploader i) ''Unknown'',
      description = make_description i\<rparr>"

text \<open>
  The too-large message is built with \<^verbatim>\<open>filesize/1024/1024\<close>. Python's division of
  an integer by 1024 gives the nearest double and raises \<^verbatim>\<open>OverflowError\<close> when that
  is beyond the largest double, \<open>2 ^ 1024 - 2 ^ 971\<close>: for integers from
  \<open>2 ^ 1034 - 2 ^ 980\<close> on, in absolute value. The limits of the two tiers are far below.
\<close>

definition true_division_overflows :: "int \<Rightarrow> bool" where
  "true_division_overflows n = (2 ^ 1034 - 2 ^ 980 \<le> \<bar>n\<bar>)"

text \<open>
  \<^verbatim>\<open>download_youtube_video\<close> returns its result, the calls it made to yt-dlp in order,
  and the user manager (the lookup of the user may create a record). The whole body
  stands in a \<^verbatim>\<open>try\<close>: an exception of yt-dlp, and the overflow while the too-large
  message is built, end in the general failure with the exception's message.
\<close>

definition download_youtube_video ::
  "ydl \<Rightarrow> UserManager \<Rightarrow> string \<Rightarrow> int \<Rightarrow> string \<Rightarrow> datetime
     \<Rightarrow> download_result \<times> io_event list \<times> UserManager" where
  "download_youtube_video y um url user_id format_type now =
     (let (u, um1) = get_user um user_id now;
          (max_file_size, um2) = get_max_file_size um1 user_id now;
          opts = make_ydl_opts u format_type
      in case extract_info y opts url of
           Inl e \<Rightarrow> (Failure (DownloadFailed e), [ExtractInfo url], um2)
         | Inr i \<Rightarrow>
             (let filesize = py_or (dict_get (info_filesize i))
                                   (dict_get_default (info_filesize_approx i) 0)
              in if truthy_int filesize \<and> (case filesize of None \<Rightarrow> False | Some n \<Rightarrow> n > max_file_size)
                 then (if true_division_overflows (case filesize of None \<Rightarrow> 0 | Some n \<Rightarrow> n)
                       then (Failure (DownloadFailed ''integer division result too large for a float''),
                             [ExtractInfo url], um2)
                       else (Failure (FileTooLarge (case filesize of None \<Rightarrow> 0 | Some n \<Rightarrow> n)
                                        (if is_premium u then ''Premium'' else ''Free'') max_file_size),
                             [ExtractInfo url], um2))
                 else (case download y opts url of
                         Some e \<Rightarrow> (Failure (DownloadFailed e), [ExtractInfo url, Download url], um2)
                       | None \<Rightarrow> (Success (make_media y opts format_type i),
                                  [ExtractInfo url, Download url], um2))))"

subsection \<open>Text summarizer\<close>

text \<open>\<^verbatim>\<open>str.isspace\<close> on one character (code points below 256).\<close>

definition isspace :: "char \<Rightarrow> bool" where
  "isspace c =
     (let n = (of_char c :: nat)
      in (9 \<le> n \<and> n \<le> 13) \<or> (28 \<le> n \<and> n \<le> 32) \<or> n = 133 \<or> n = 160)"

definition strip :: "string \<Rightarrow> string" where
  "strip s = rev (dropWhile isspace (rev (dropWhile isspace s)))"

text \<open>\<^verbatim>\<open>s.split()\<close>: the maximal runs of characters that are not white space.\<close>

fun split_whitespace :: "string \<Rightarrow> string \<Rightarrow> string list" where
  "split_whitespace acc [] = (if acc = [] then [] else [rev acc])"
| "split_whitespace acc (c # cs) =
     (if isspace c
      then (if acc = [] then split_whitespace [] cs else rev acc # split_whitespace [] cs)
      else split_whitespace (c # acc) cs)"

text \<open>\<^verbatim>\<open>text.split(". ")\<close>: cut at every period followed by a space, left to right.\<close>

fun split_period_space :: "string \<Rightarrow> string \<Rightarrow> string list" where
  "split_period_space acc (c # d # cs) =
     (if c = CHR ''.'' \<and> d = CHR '' '' then rev acc # split_period_space [] cs
      else split_period_space (c # acc) (d # cs))"
| "split_period_space acc [c] = [rev (c # acc)]"
| "split_period_space acc [] = [rev acc]"

text \<open>\<^verbatim>\<open>sep.join(parts)\<close>.\<close>

fun join :: "string \<Rightarrow> string list \<Rightarrow> string" where
  "join sep [] = []"
| "join sep [x] = x"
| "join sep (x # y # ys) = x @ sep @ join sep (y # ys)"

text \<open>\<^verbatim>\<open>s[:m]\<close> for an integer \<open>m\<close>; a negative \<open>m\<close> counts from the end.\<close>

definition slice_to :: "int \<Rightarrow> 'a list \<Rightarrow> 'a list" where
  "slice_to m xs = (if 0 \<le> m then take (nat m) xs else take (length xs - nat (- m)) xs)"

datatype summary_result = Summary string | SummaryFailure string

text \<open>
  The score of sentence \<open>i\<close> of \<open>n\<close>: its number of words, times 1.5 for the first
  sentence, times 1.2 in the first third. The source computes in floating point; the
  model computes the same products exactly, as rationals.
\<close>

definition sentence_score :: "nat \<Rightarrow> nat \<Rightarrow> string \<Rightarrow> rat" where
  "sentence_score n i s =
     (let score = of_nat (length (split_whitespace [] s));
          score1 = (if i = 0 then score * (3 / 2) else score);
          score2 = (if i < n div 3 then score1 * (6 / 5) else score1)
      in score2)"

definition scored_sentences :: "string list \<Rightarrow> (rat \<times> string) list" where
  "scored_sentences sentences =
     map (\<lambda>(i, s). (sentence_score (length sentences) i (strip s), strip s))
       (filter (\<lambda>(i, s). \<not> length (strip s) < 10) (enumerate 0 sentences))"

text \<open>
  The three best sentences joined: \<^verbatim>\<open>scored_sentences.sort(reverse=True)\<close>, then
  \<^verbatim>\<open>". ".join(top_sentences)\<close> of the first three.
\<close>

definition joined_top_sentences :: "string list \<Rightarrow> string" where
  "joined_top_sentences sentences =
     (let top_sentences = map snd (take 3 (rev (sort (scored_sentences sentences))))
      in join ''. '' top_sentences)"

text \<open>
  \<^verbatim>\<open>summarize_with_local_extraction\<close>. \<^verbatim>\<open>sort(reverse=True)\<close> orders the pairs of score
  and sentence from the largest down, pairs by their score first and their sentence next.
  No operation of the body can raise on a string, so the handler of the \<^verbatim>\<open>try\<close> has no
  branch in the model.
\<close>

definition summarize_with_local_extraction :: "string \<Rightarrow> int \<Rightarrow> summary_result" where
  "summarize_with_local_extraction text max_length =
     (let sentences = split_period_space [] text
      in if length sentences \<le> 3 then Summary text
         else
           (let summary = joined_top_sentences sentences;
                summary1 = (if int (length summary) > max_length
                            then slice_to max_length summary @ ''...'' else summary)
            in Summary (summary1 @ ''.'')))"

definition summarize_with_simple_method :: "string \<Rightarrow> int \<Rightarrow> summary_result" where
  "summarize_with_simple_method text max_length =
     (let words = split_whitespace [] text
      in if length words \<le> 50 then Summary text
         else Summary (join '' '' (take (min 50 (length words)) words) @ ''...''))"

text \<open>\<^verbatim>\<open>summarize_text\<close>: the first method that reports success gives the result.\<close>

fun first_success :: "(string \<Rightarrow> int \<Rightarrow> summary_result) list \<Rightarrow> string \<Rightarrow> int \<Rightarrow> summary_result" where
  "first_success [] text max_length =
     SummaryFailure ''Summarization services temporarily unavailable. Please try again later.''"
| "first_success (api_func # rest) text max_length =
     (case api_func text max_length of
        Summary s \<Rightarrow> Summary s
      | SummaryFailure e \<Rightarrow> first_success rest text max_length)"

definition summarize_text :: "string \<Rightarrow> int \<Rightarrow> summary_result" where
  "summarize_text text max_length =
     first_success [summarize_with_local_extraction, summarize_with_simple_method] text max_length"

text \<open>\<^verbatim>\<open>re.sub(r"\s+", " ", text)\<close>: every run of white space becomes one space.\<close>

function collapse_whitespace :: "string \<Rightarrow> string" where
  "collapse_whitespace [] = []"
| "collapse_whitespace (c # cs) =
     (if isspace c then CHR '' '' # collapse_whitespace (dropWhile isspace cs)
      else c # collapse_whitespace cs)"
  by pat_completeness auto
termination
  by (relation "measure length") (auto simp: less_Suc_eq_le length_dropWhile_le)

text \<open>
  The answer of \<^verbatim>\<open>requests.get\<close>: the status code, the texts of the \<^verbatim>\<open><p>\<close> elements
  that BeautifulSoup finds once the non-content tags are removed (\<open>None\<close> when the import
  of \<^verbatim>\<open>bs4\<close> fails), and the body with every tag replaced by a space, which the source
  uses in that case.
\<close>

record response =
  status_code :: int
  paragraphs :: "string list option"
  text_without_tags :: string

definition summarize_url ::
  "(string \<Rightarrow> string + response) \<Rightarrow> UserManager \<Rightarrow> string \<Rightarrow> int \<Rightarrow> datetime
     \<Rightarrow> summary_result \<times> io_event list \<times> UserManager" where
  "summarize_url http_get um url user_id now =
     (let (u, um1) = get_user um user_id now;
          max_length = (if is_premium u then 500 else 300)
      in case http_get url of
           Inl e \<Rightarrow>
             (SummaryFailure ''Could not process this URL. Please try a different article.'',
              [HttpGet url], um1)
         | Inr r \<Rightarrow>
             if status_code r \<noteq> 200
             then (SummaryFailure (''Could not fetch URL (Status: '' @ str (status_code r) @ '')''),
                   [HttpGet url], um1)
             else
               (let max_paragraphs = (if is_premium u then 8 else 5);
                    text0 = (case paragraphs r of
                               Some ps \<Rightarrow>
                                 join '' '' (take max_paragraphs
                                   (filter (\<lambda>p. length p > 50) (map strip ps)))
                             | None \<Rightarrow> text_without_tags r);
                    text1 = strip (collapse_whitespace text0)
                in if length text1 < 100
                   then (SummaryFailure ''Not enough content found to summarize'', [HttpGet url], um1)
                   else
                     (let text_limit = (if is_premium u then 5000 else 3000)
                      in (summarize_text (take text_limit text1) max_length, [HttpGet url], um1))))"

subsection \<open>Router and handlers\<close>

text \<open>\<^verbatim>\<open>str.lower\<close> on one character (code points below 256).\<close>

definition lower_char :: "char \<Rightarrow> char" where
  "lower_char c =
     (let n = (of_char c :: nat)
      in if (65 \<le> n \<and> n \<le> 90) \<or> (192 \<le> n \<and> n \<le> 222 \<and> n \<noteq> 215) then char_of (n + 32) else c)"

definition lower :: "string \<Rightarrow> string" where
  "lower s = map lower_char s"

text \<open>\<^verbatim>\<open>d in s\<close> on strings: \<open>d\<close> occurs in \<open>s\<close> as a block.\<close>

fun contains :: "string \<Rightarrow> string \<Rightarrow> bool" where
  "contains [] d = (d = [])"
| "contains (c # cs) d = (take (length d) (c # cs) = d \<or> contains cs d)"

definition youtube_domains :: "string list" where
  "youtube_domains = [''youtube.com'', ''youtu.be'', ''m.youtube.com'', ''youtube.be'']"

definition is_youtube :: "string \<Rightarrow> bool" where
  "is_youtube url = list_ex (\<lambda>d. contains (lower url) d) youtube_domains"

text \<open>
  What a handler does, in order: the replies it sends, the calls into the two pipelines
  with what they return, the calls the pipelines make to the outside, and the counting of
  a download or a summary.
\<close>

datatype reply =
    SubscribeFirst
  | DownloadLimitReached int
  | SummaryLimitReached int
  | Processing
  | VideoSent media
  | VideoNotSent
  | ErrorOccurred
  | DownloadFailedReply download_error
  | SummaryReply string
  | SummaryFailedReply string

datatype event =
    Replied reply
  | DownloaderCalled string
  | DownloaderReturned download_result
  | SummarizerCalled string
  | SummarizerReturned summary_result
  | Outside io_event
  | DownloadCounted
  | SummaryCounted
  | FileRemoved string

text \<open>
  The outside world of the handlers: yt-dlp, the HTTP fetch, whether opening the
  downloaded file and sending it back to the chat succeeds, and whether removing the file
  afterwards succeeds. Replies with text are taken to be delivered.
\<close>

record world =
  ydl_of :: ydl
  http_get_of :: "string \<Rightarrow> string + response"
  send_video_ok :: "string \<Rightarrow> bool"
  remove_file_ok :: "string \<Rightarrow> bool"

text \<open>
  \<^verbatim>\<open>handle_youtube_download\<close>. After a successful download it counts the download and
  then builds the caption with \<^verbatim>\<open>result.get('duration', 0)//60\<close>; a duration that is
  \<^verbatim>\<open>None\<close> raises there, and the handler of the outer \<^verbatim>\<open>try\<close> only replies that an
  error occurred. A file that cannot be sent stays where it is; a failure to remove a
  file that was sent is ignored.
\<close>

definition handle_youtube_download ::
  "BotConfig \<Rightarrow> world \<Rightarrow> UserManager \<Rightarrow> string \<Rightarrow> int \<Rightarrow> datetime \<Rightarrow> event list \<times> UserManager" where
  "handle_youtube_download cfg w um url user_id now =
     (let (ok, um1) = can_download cfg um user_id now
      in if \<not> ok
         then
           (let (u, um2) = get_user um1 user_id now;
                limit = (if is_premium u then MAX_PREMIUM_DOWNLOADS else MAX_FREE_DOWNLOADS cfg)
            in ([Replied (DownloadLimitReached limit)], um2))
         else
           (let (result, io, um2) = download_youtube_video (ydl_of w) um1 url user_id ''video'' now;
                called = [Replied Processing, DownloaderCalled url] @ map Outside io
                           @ [DownloaderReturned result]
            in case result of
                 Success m \<Rightarrow>
                   (let um3 = increment_download um2 user_id now;
                        (u, um4) = get_user um3 user_id now
                    in (called @ [DownloadCounted]
                          @ (case duration m of
                               None \<Rightarrow> [Replied ErrorOccurred]
                             | Some d \<Rightarrow>
                                 if send_video_ok w (filepath m)
                                 then Replied (VideoSent m)
                                        # (if remove_file_ok w (filepath m)
                                           then [FileRemoved (filepath m)] else [])
                                 else [Replied VideoNotSent]),
                        um4))
               | Failure e \<Rightarrow> (called @ [Replied (DownloadFailedReply e)], um2)))"

definition handle_article_summary ::
  "BotConfig \<Rightarrow> world \<Rightarrow> UserManager \<Rightarrow> string \<Rightarrow> int \<Rightarrow> datetime \<Rightarrow> event list \<times> UserManager" where
  "handle_article_summary cfg w um url user_id now =
     (let (ok, um1) = can_summarize cfg um user_id now
      in if \<not> ok
         then
           (let (u, um2) = get_user um1 user_id now;
                limit = (if is_premium u then MAX_PREMIUM_SUMMARIES else MAX_FREE_SUMMARIES cfg)
            in ([Replied (SummaryLimitReached limit)], um2))
         else
           (let (result, io, um2) = summarize_url (http_get_of w) um1 url user_id now;
                called = [Replied Processing, SummarizerCalled url] @ map Outside io
                           @ [SummarizerReturned result]
            in case result of
                 Summary s \<Rightarrow>
                   (let um3 = increment_summary um2 user_id now;
                        (u, um4) = get_user um3 user_id now
                    in (called @ [SummaryCounted, Replied (SummaryReply s)], um4))
               | SummaryFailure e \<Rightarrow> (called @ [Replied (SummaryFailedReply e)], um2)))"

text \<open>
  \<^verbatim>\<open>handle_url\<close>, from the URL it has taken out of the message: the subscription gate,
  then the routing by \<open>is_youtube\<close>.
\<close>

definition handle_url ::
  "BotConfig \<Rightarrow> world \<Rightarrow> UserManager \<Rightarrow> string \<Rightarrow> int \<Rightarrow> datetime \<Rightarrow> event list \<times> UserManager" where
  "handle_url cfg w um url user_id now =
     (let (sub, um1) = is_subscribed_user um user_id now
      in if \<not> sub then ([Replied SubscribeFirst], um1)
         else if is_youtube url then handle_youtube_download cfg w um1 url user_id now
         else handle_article_summary cfg w um1 url user_id now)"

subsection \<open>Runs of the user manager\<close>

text \<open>
  The methods of \<^verbatim>\<open>UserManager\<close> as operations, each with the clock reading of its call,
  and the user manager after a sequence of them.
\<close>

datatype operation =
    GetUser int
  | SubscribeUser int "string option"
  | UpgradeToPremium int string
  | IsSubscribed int
  | ResetDailyLimits int
  | CanDownload int
  | CanSummarize int
  | GetMaxFileSize int
  | IncrementDownload int
  | IncrementSummary int

fun perform :: "BotConfig \<Rightarrow> UserManager \<Rightarrow> operation \<times> datetime \<Rightarrow> UserManager" where
  "perform cfg um (GetUser i, now) = snd (get_user um i now)"
| "perform cfg um (SubscribeUser i code, now) = subscribe_user um i code now"
| "perform cfg um (UpgradeToPremium i expires, now) = upgrade_to_premium um i now expires"
| "perform cfg um (IsSubscribed i, now) = snd (is_subscribed_user um i now)"
| "perform cfg um (ResetDailyLimits i, now) = reset_daily_limits um i now"
| "perform cfg um (CanDownload i, now) = snd (can_download cfg um i now)"
| "perform cfg um (CanSummarize i, now) = snd (can_summarize cfg um i now)"
| "perform cfg um (GetMaxFileSize i, now) = snd (get_max_file_size um i now)"
| "perform cfg um (IncrementDownload i, now) = increment_download um i now"
| "perform cfg um (IncrementSummary i, now) = increment_summary um i now"

fun perform_all :: "BotConfig \<Rightarrow> UserManager \<Rightarrow> (operation \<times> datetime) list \<Rightarrow> UserManager" where
  "perform_all cfg um [] = um"
| "perform_all cfg um (step # steps) = perform_all cfg (perform cfg um step) steps"

subsection \<open>The specification's wording, for comparison\<close>

text \<open>
  The size estimate as the specification words it: the file size, falling back to the
  approximate file size when there is no file size (a file size of zero counts as none).
\<close>

definition spec_estimated_size :: "info \<Rightarrow> int option" where
  "spec_estimated_size i =
     (case info_filesize i of
        Val n \<Rightarrow> if n \<noteq> 0 then Some n else dict_get (info_filesize_approx i)
      | _ \<Rightarrow> dict_get (info_filesize_approx i))"

text \<open>
  The host of a URL as the specification's router uses it: what stands after the
  \<^verbatim>\<open>://\<close> of the scheme (or from the start when there is none) up to the first slash,
  question mark or hash; and the specification's classification by that host.
\<close>

fun after_scheme :: "string \<Rightarrow> string option" where
  "after_scheme (a # b # c # cs) =
     (if a = CHR '':'' \<and> b = CHR ''/'' \<and> c = CHR ''/'' then Some cs
      else after_scheme (b # c # cs))"
| "after_scheme cs = None"

definition spec_host :: "string \<Rightarrow> string" where
  "spec_host url =
     takeWhile (\<lambda>c. c \<noteq> CHR ''/'' \<and> c \<noteq> CHR ''?'' \<and> c \<noteq> CHR ''#'')
       (case after_scheme url of Some rest \<Rightarrow> rest | None \<Rightarrow> url)"

definition spec_is_media :: "string \<Rightarrow> bool" where
  "spec_is_media url = list_ex (\<lambda>d. contains (lower (spec_host url)) d) youtube_domains"

subsection \<open>Example inputs\<close>

definition example_day1 :: datetime where
  "example_day1 = \<lparr>date_iso = ''2026-01-01'', time_iso = ''09:30:00''\<rparr>"

definition example_day2 :: datetime where
  "example_day2 = \<lparr>date_iso = ''2026-01-02'', time_iso = ''09:30:00''\<rparr>"

text \<open>A subscribed free-tier user who has used up the three downloads of the first day.\<close>

definition example_user :: user where
  "example_user =
     \<lparr>is_subscribed = True,
      subscription_date = Some ''2025-12-24T18:00:00'',
      downloads_today = 3,
      summaries_today = 2,
      last_reset = ''2026-01-01'',
      is_premium = False,
      premium_expires = None,
      premium_started = None,
      total_downloads = 9,
      total_summaries = 4,
      referral_code = None,
      referred_by = None\<rparr>"

definition example_um :: UserManager where
  "example_um =
     \<lparr>users = [str 7 \<mapsto> example_user], persisted = [str 7 \<mapsto> example_user], writable = True\<rparr>"

text \<open>The same user with the five summaries of the day used up as well.\<close>

definition example_spent_um :: UserManager where
  "example_spent_um =
     \<lparr>users = [str 7 \<mapsto> example_user\<lparr>summaries_today := 5\<rparr>],
      persisted = [str 7 \<mapsto> example_user\<lparr>summaries_today := 5\<rparr>],
      writable = True\<rparr>"

text \<open>The first store once more, with a data file that cannot be written.\<close>

definition example_readonly_um :: UserManager where
  "example_readonly_um = example_um\<lparr>writable := False\<rparr>"

definition empty_um :: UserManager where
  "empty_um = \<lparr>users = Map.empty, persisted = Map.empty, writable = True\<rparr>"

text \<open>Metadata with a description of 600 characters and a small file size.\<close>

definition example_info :: info where
  "example_info =
     \<lparr>info_filesize = Val 1000,
      info_filesize_approx = Absent,
      info_title = Val ''Clip'',
      info_duration = Val 75,
      info_uploader = Val ''Someone'',
      info_description = Val (replicate 600 (CHR ''x''))\<rparr>"

text \<open>Metadata with no file size and an approximate size of 80 MiB.\<close>

definition example_big_info :: info where
  "example_big_info = example_info\<lparr>info_filesize := PyNone, info_filesize_approx := Val (80 * 1024 * 1024)\<rparr>"

text \<open>Metadata whose file size is the integer \<open>10 ^ 400\<close>.\<close>

definition example_huge_info :: info where
  "example_huge_info = example_info\<lparr>info_filesize := Val (10 ^ 400)\<rparr>"

text \<open>Metadata with no usable size at all.\<close>

definition example_unsized_info :: info where
  "example_unsized_info = example_info\<lparr>info_filesize := Absent, info_filesize_approx := Val 0\<rparr>"

definition example_ydl :: "info \<Rightarrow> ydl" where
  "example_ydl i =
     \<lparr>extract_info = (\<lambda>opts url. Inr i),
      download = (\<lambda>opts url. None),
      prepare_filename = (\<lambda>opts i. ''downloads/Clip_abc123.mp4'')\<rparr>"

text \<open>The free download limit set to zero through the environment.\<close>

definition zero_downloads_config :: BotConfig where
  "zero_downloads_config = \<lparr>MAX_FREE_DOWNLOADS = 0, MAX_FREE_SUMMARIES = 5\<rparr>"

text \<open>What a download with \<open>example_info\<close> returns.\<close>

definition example_media :: media where
  "example_media =
     \<lparr>filepath = ''downloads/Clip_abc123.mp4'',
      title = Some ''Clip'',
      duration = Some 75,
      uploader = Some ''Someone'',
      description = replicate 500 (CHR ''x'') @ ''...''\<rparr>"

text \<open>Four sentences, three of them long; and what the summarizer makes of them at 300.\<close>

definition example_text :: string where
  "example_text = ''Researchers at the university announced on Monday that they had developed a new method for storing solar energy in molten salt at very low cost. The team spent the last five years testing dozens of different salt mixtures in a small laboratory that was built inside an old shipping container. Early results suggest that the technique could cut the price of overnight electricity storage by more than half within the coming decade. Funding came from a public grant.''"

definition example_summary :: string where
  "example_summary = ''Researchers at the university announced on Monday that they had developed a new method for storing solar energy in molten salt at very low cost. The team spent the last five years testing dozens of different salt mixtures in a small laboratory that was built inside an old shipping container. Early r....''"

text \<open>
  A world where yt-dlp delivers \<open>example_info\<close>, every page answers with the example
  text as its one paragraph, and videos can be sent and removed.
\<close>

definition example_response :: response where
  "example_response =
     \<lparr>status_code = 200, paragraphs = Some [example_text], text_without_tags = []\<rparr>"

definition example_world :: world where
  "example_world =
     \<lparr>ydl_of = example_ydl example_info,
      http_get_of = (\<lambda>url. Inr example_response),
      send_video_ok = (\<lambda>path. True),
      remove_file_ok = (\<lambda>path. True)\<rparr>"

section \<open>Properties of the user manager\<close>

lemma get_user_present:
  "users um (str user_id) = Some u \<Longrightarrow> get_user um user_id now = (u, um)"
  by (simp add: get_user_def)

lemma get_user_again:
  "get_user um user_id now = (u, um1) \<Longrightarrow> get_user um1 user_id now = (u, um1)"
  by (auto simp: get_user_def split: option.splits)

lemma reset_daily_limits_present:
  "users um (str user_id) = Some u \<Longrightarrow>
   reset_daily_limits um user_id now =
     (if last_reset u \<noteq> date_iso now
      then save_user_data
             (put_user um user_id
                (u\<lparr>downloads_today := 0, summaries_today := 0, last_reset := date_iso now\<rparr>))
      else um)"
  by (simp add: reset_daily_limits_def get_user_present)

lemma can_download_eq:
  "can_download cfg um user_id now =
     (case users um (str user_id) of
        None \<Rightarrow> (False, um\<lparr>users := (users um)(str user_id \<mapsto> new_user now)\<rparr>)
      | Some u \<Rightarrow>
          if \<not> is_subscribed u then (False, um)
          else ((if last_reset u = date_iso now then downloads_today u else 0)
                   < (if is_premium u then 100 else MAX_FREE_DOWNLOADS cfg),
                reset_daily_limits um user_id now))"
  by (cases "users um (str user_id)")
     (simp_all add: can_download_def reset_daily_limits_def get_user_def save_user_data_def
        put_user_def new_user_def MAX_PREMIUM_DOWNLOADS_def Let_def)

lemma can_summarize_eq:
  "can_summarize cfg um user_id now =
     (case users um (str user_id) of
        None \<Rightarrow> (False, um\<lparr>users := (users um)(str user_id \<mapsto> new_user now)\<rparr>)
      | Some u \<Rightarrow>
          if \<not> is_subscribed u then (False, um)
          else ((if last_reset u = date_iso now then summaries_today u else 0)
                   < (if is_premium u then 50 else MAX_FREE_SUMMARIES cfg),
                reset_daily_limits um user_id now))"
  by (cases "users um (str user_id)")
     (simp_all add: can_summarize_def reset_daily_limits_def get_user_def save_user_data_def
        put_user_def new_user_def MAX_PREMIUM_SUMMARIES_def Let_def)

text \<open>
  Claim C1. \<^verbatim>\<open>can_download\<close> answers no for a user who is not subscribed (an identity
  not seen before gets a fresh record, which is not subscribed). For a subscribed user it
  runs the daily reset, which is the user manager it leaves behind, and answers yes exactly
  when \<open>downloads_today\<close> after that reset (the stored count if the last reset was today,
  zero otherwise) is below the limit of the tier: 100 for premium, the configured
  \<open>MAX_FREE_DOWNLOADS\<close> for free, which is 3 unless the environment sets it. The answer
  does not depend on \<open>summaries_today\<close>.
\<close>

theorem can_download_decides_by_downloads_today:
  "can_download cfg um user_id now =
     (case users um (str user_id) of
        None \<Rightarrow> (False, um\<lparr>users := (users um)(str user_id \<mapsto> new_user now)\<rparr>)
      | Some u \<Rightarrow>
          if \<not> is_subscribed u then (False, um)
          else ((if last_reset u = date_iso now then downloads_today u else 0)
                   < (if is_premium u then 100 else MAX_FREE_DOWNLOADS cfg),
                reset_daily_limits um user_id now))
   \<and> MAX_FREE_DOWNLOADS default_config = 3
   \<and> (users um (str user_id) = Some u \<longrightarrow>
        fst (can_download cfg (put_user um user_id (u\<lparr>summaries_today := s\<rparr>)) user_id now)
          = fst (can_download cfg um user_id now))"
proof -
  have "users um (str user_id) = Some u \<longrightarrow>
        fst (can_download cfg (put_user um user_id (u\<lparr>summaries_today := s\<rparr>)) user_id now)
          = fst (can_download cfg um user_id now)"
    by (simp add: can_download_eq put_user_def)
  then show ?thesis
    by (simp add: can_download_eq [of cfg um] default_config_def)
qed

theorem can_download_decides_by_downloads_today_witness:
  "users example_um (str 7) = Some example_user
   \<and> can_download default_config example_um 7 example_day1 = (False, example_um)
   \<and> fst (can_download default_config example_um 7 example_day2) = True
   \<and> fst (can_download default_config
             (put_user example_um 7 (example_user\<lparr>summaries_today := 0\<rparr>)) 7 example_day1)
        = fst (can_download default_config example_um 7 example_day1)"
  using can_download_decides_by_downloads_today
          [of default_config example_um 7 example_day1 example_user 0]
        can_download_decides_by_downloads_today
          [of default_config example_um 7 example_day2 example_user 0]
  by (simp add: example_um_def example_user_def example_day1_def example_day2_def
        default_config_def reset_daily_limits_def get_user_def Let_def)

lemma reset_daily_limits_same_day:
  "users um (str user_id) = Some u \<Longrightarrow> last_reset u = date_iso now \<Longrightarrow>
   reset_daily_limits um user_id now = um"
  by (simp add: reset_daily_limits_present)

text \<open>
  Claim C4 as stated fails for the saving. \<^verbatim>\<open>save_user_data\<close> catches the exception of
  a write that fails and only logs it. With a data file that cannot be written, the reset
  on a new day sets the counters in memory to zero, and the persisted table still holds
  the record of the day before.
\<close>

theorem reset_with_failed_write_is_not_persisted:
  "users example_readonly_um (str 7) = Some example_user
   \<and> last_reset example_user \<noteq> date_iso example_day2
   \<and> users (reset_daily_limits example_readonly_um 7 example_day2) (str 7) =
        Some (example_user\<lparr>downloads_today := 0, summaries_today := 0,
                            last_reset := ''2026-01-02''\<rparr>)
   \<and> persisted (reset_daily_limits example_readonly_um 7 example_day2) (str 7) =
        Some example_user
   \<and> downloads_today example_user = 3
   \<and> persisted (reset_daily_limits example_readonly_um 7 example_day2)
        \<noteq> users (reset_daily_limits example_readonly_um 7 example_day2)"
proof -
  have u: "users (reset_daily_limits example_readonly_um 7 example_day2) (str 7) =
        Some (example_user\<lparr>downloads_today := 0, summaries_today := 0,
                            last_reset := ''2026-01-02''\<rparr>)"
    by (simp add: reset_daily_limits_def get_user_def save_user_data_def put_user_def
          example_readonly_um_def example_um_def example_user_def example_day2_def Let_def)
  have p: "persisted (reset_daily_limits example_readonly_um 7 example_day2) (str 7) =
        Some example_user"
    by (simp add: reset_daily_limits_def get_user_def save_user_data_def put_user_def
          example_readonly_um_def example_um_def example_user_def example_day2_def Let_def)
  have d: "Some example_user \<noteq> Some (example_user\<lparr>downloads_today := 0, summaries_today := 0,
                            last_reset := ''2026-01-02''\<rparr>)"
    by (simp add: example_user_def)
  have "persisted (reset_daily_limits example_readonly_um 7 example_day2)
        \<noteq> users (reset_daily_limits example_readonly_um 7 example_day2)"
    using u p d by metis
  with u p show ?thesis
    by (simp add: example_readonly_um_def example_um_def example_user_def example_day2_def)
qed

text \<open>
  Claim C4, amended. What \<^verbatim>\<open>reset_daily_limits\<close> does to a stored record is decided by
  the date alone. When \<open>last_reset\<close> is today's date it changes nothing at all: no
  counter, no other record, nothing written. When \<open>last_reset\<close> is another date it sets
  both daily counters to zero and \<open>last_reset\<close> to today in memory, leaves every other
  record as it was, and saves: the persisted table becomes the table in memory when the
  write succeeds, and stays as it was when the write fails. Running it again on the same
  date, at whatever time of day, changes nothing.
\<close>

theorem reset_daily_limits_by_date:
  "users um (str user_id) = Some u \<Longrightarrow>
     reset_daily_limits um user_id now =
       (if last_reset u = date_iso now then um
        else um\<lparr>users := (users um)(str user_id \<mapsto>
                         u\<lparr>downloads_today := 0, summaries_today := 0,
                           last_reset := date_iso now\<rparr>),
                persisted :=
                  (if writable um
                   then (users um)(str user_id \<mapsto>
                          u\<lparr>downloads_today := 0, summaries_today := 0,
                            last_reset := date_iso now\<rparr>)
                   else persisted um)\<rparr>)
     \<and> (date_iso later = date_iso now \<longrightarrow>
          reset_daily_limits (reset_daily_limits um user_id now) user_id later
            = reset_daily_limits um user_id now)"
  by (simp add: reset_daily_limits_present save_user_data_def put_user_def)

theorem reset_daily_limits_by_date_witness:
  "users example_um (str 7) = Some example_user
   \<and> reset_daily_limits example_um 7 example_day1 = example_um
   \<and> users (reset_daily_limits example_um 7 example_day2) =
        [str 7 \<mapsto> example_user\<lparr>downloads_today := 0, summaries_today := 0,
                                   last_reset := ''2026-01-02''\<rparr>]
   \<and> persisted (reset_daily_limits example_um 7 example_day2) =
        [str 7 \<mapsto> example_user\<lparr>downloads_today := 0, summaries_today := 0,
                                   last_reset := ''2026-01-02''\<rparr>]
   \<and> date_iso (example_day2\<lparr>time_iso := ''23:59:59''\<rparr>) = date_iso example_day2
   \<and> reset_daily_limits (reset_daily_limits example_um 7 example_day2) 7
          (example_day2\<lparr>time_iso := ''23:59:59''\<rparr>)
        = reset_daily_limits example_um 7 example_day2"
proof -
  let ?late = "example_day2\<lparr>time_iso := ''23:59:59''\<rparr>"
  let ?u = "example_user\<lparr>downloads_today := 0, summaries_today := 0,
                          last_reset := date_iso example_day2\<rparr>"
  have k: "users example_um (str 7) = Some example_user"
    by (simp add: example_um_def)
  have l: "date_iso ?late = date_iso example_day2"
    by simp
  have same: "last_reset example_user = date_iso example_day1"
    by (simp add: example_user_def example_day1_def)
  have other: "last_reset example_user \<noteq> date_iso example_day2"
    by (simp add: example_user_def example_day2_def)
  have w: "writable example_um"
    by (simp add: example_um_def)
  note day1 = reset_daily_limits_by_date [OF k, of example_day1 ?late]
  note day2 = reset_daily_limits_by_date [OF k, of example_day2 ?late]
  have a: "reset_daily_limits example_um 7 example_day1 = example_um"
    using day1 same by simp
  have b: "reset_daily_limits example_um 7 example_day2 =
             example_um\<lparr>users := (users example_um)(str 7 \<mapsto> ?u),
                        persisted := (users example_um)(str 7 \<mapsto> ?u)\<rparr>"
    using day2 other w by simp
  have c: "reset_daily_limits (reset_daily_limits example_um 7 example_day2) 7 ?late
             = reset_daily_limits example_um 7 example_day2"
    using day2 l by blast
  have d: "date_iso example_day2 = ''2026-01-02''"
    by (simp add: example_day2_def)
  have ku: "users example_um = [str 7 \<mapsto> example_user]"
    by (simp add: example_um_def)
  have bu: "users (reset_daily_limits example_um 7 example_day2) =
        [str 7 \<mapsto> example_user\<lparr>downloads_today := 0, summaries_today := 0,
                                   last_reset := ''2026-01-02''\<rparr>]"
    by (simp add: b d ku)
  have bp: "persisted (reset_daily_limits example_um 7 example_day2) =
        [str 7 \<mapsto> example_user\<lparr>downloads_today := 0, summaries_today := 0,
                                   last_reset := ''2026-01-02''\<rparr>]"
    by (simp add: b d ku)
  from k a bu bp l c show ?thesis
    by blast
qed

text \<open>
  Claim C5, at the input where the code departs from it. \<^verbatim>\<open>get_user\<close> on an identity
  that the store does not hold returns a fresh record (counters zero, not subscribed) and
  puts it into the table in memory, but it does not call \<^verbatim>\<open>save_user_data\<close>: the
  persisted table still has no entry for the identity when the call returns.
\<close>

theorem get_user_does_not_save:
  "fst (get_user empty_um 42 example_day1) = new_user example_day1
   \<and> users (snd (get_user empty_um 42 example_day1)) (str 42) = Some (new_user example_day1)
   \<and> persisted (snd (get_user empty_um 42 example_day1)) (str 42) = None
   \<and> downloads_today (new_user example_day1) = 0
   \<and> summaries_today (new_user example_day1) = 0
   \<and> total_downloads (new_user example_day1) = 0
   \<and> total_summaries (new_user example_day1) = 0
   \<and> \<not> is_subscribed (new_user example_day1)"
  by (simp add: get_user_def empty_um_def new_user_def)

lemma perform_keeps_totals:
  assumes k: "users um k = Some u"
  shows "\<exists>u'. users (perform cfg um step) k = Some u'
           \<and> total_downloads u \<le> total_downloads u' \<and> total_summaries u \<le> total_summaries u'"
proof (cases step)
  case (Pair op now)
  show ?thesis
  proof (cases op)
    case (GetUser i)
    with Pair k show ?thesis
      by (auto simp: get_user_def split: option.splits)
  next
    case (SubscribeUser i code)
    with Pair k show ?thesis
      by (auto simp: subscribe_user_def get_user_def save_user_data_def put_user_def Let_def
          split: option.splits)
  next
    case (UpgradeToPremium i e)
    with Pair k show ?thesis
      by (auto simp: upgrade_to_premium_def get_user_def save_user_data_def put_user_def Let_def
          split: option.splits)
  next
    case (IsSubscribed i)
    with Pair k show ?thesis
      by (auto simp: is_subscribed_user_def get_user_def split: option.splits)
  next
    case (ResetDailyLimits i)
    with Pair k show ?thesis
      by (auto simp: reset_daily_limits_def get_user_def save_user_data_def put_user_def Let_def
          split: option.splits)
  next
    case (CanDownload i)
    with Pair k show ?thesis
      by (auto simp: can_download_def reset_daily_limits_def get_user_def save_user_data_def
          put_user_def Let_def split: option.splits)
  next
    case (CanSummarize i)
    with Pair k show ?thesis
      by (auto simp: can_summarize_def reset_daily_limits_def get_user_def save_user_data_def
          put_user_def Let_def split: option.splits)
  next
    case (GetMaxFileSize i)
    with Pair k show ?thesis
      by (auto simp: get_max_file_size_def get_user_def split: option.splits)
  next
    case (IncrementDownload i)
    with Pair k show ?thesis
      by (auto simp: increment_download_def get_user_def save_user_data_def put_user_def Let_def
          split: option.splits)
  next
    case (IncrementSummary i)
    with Pair k show ?thesis
      by (auto simp: increment_summary_def get_user_def save_user_data_def put_user_def Let_def
          split: option.splits)
  qed
qed

text \<open>
  Claim C8. Whatever sequence of user-manager operations runs (lookup, subscribe,
  upgrade, the daily reset, the two gating checks, the two increments), a record that
  is in the store stays in the store, and its \<open>total_downloads\<close> and \<open>total_summaries\<close>
  are never below what they were.
\<close>

theorem totals_never_decrease:
  "users um k = Some u \<Longrightarrow>
   \<exists>u'. users (perform_all cfg um steps) k = Some u'
        \<and> total_downloads u \<le> total_downloads u' \<and> total_summaries u \<le> total_summaries u'"
proof (induction steps arbitrary: um u)
  case Nil
  then show ?case by simp
next
  case (Cons step steps)
  from perform_keeps_totals [OF Cons.prems, of cfg step]
  obtain u1 where u1: "users (perform cfg um step) k = Some u1"
    and le1: "total_downloads u \<le> total_downloads u1" "total_summaries u \<le> total_summaries u1"
    by blast
  from Cons.IH [OF u1]
  obtain u2 where "users (perform_all cfg (perform cfg um step) steps) k = Some u2"
    and "total_downloads u1 \<le> total_downloads u2" "total_summaries u1 \<le> total_summaries u2"
    by blast
  with le1 show ?case by auto
qed

theorem totals_never_decrease_witness:
  "users example_um (str 7) = Some example_user
   \<and> (\<exists>u'. users (perform_all default_config example_um
                    [(SubscribeUser 7 None, example_day1), (IncrementDownload 7, example_day1),
                     (ResetDailyLimits 7, example_day2), (IncrementSummary 7, example_day2),
                     (GetUser 8, example_day2)]) (str 7) = Some u'
          \<and> 9 \<le> total_downloads u' \<and> 4 \<le> total_summaries u')"
  using totals_never_decrease
          [of example_um "str 7" example_user default_config
              "[(SubscribeUser 7 None, example_day1), (IncrementDownload 7, example_day1),
                (ResetDailyLimits 7, example_day2), (IncrementSummary 7, example_day2),
                (GetUser 8, example_day2)]"]
  by (simp add: example_um_def example_user_def)

section \<open>Properties of the media downloader\<close>

lemma download_youtube_video_unfold:
  assumes "get_user um user_id now = (u, um1)"
  shows "download_youtube_video y um url user_id format_type now =
     (case extract_info y (make_ydl_opts u format_type) url of
        Inl e \<Rightarrow> (Failure (DownloadFailed e), [ExtractInfo url], um1)
      | Inr i \<Rightarrow>
          (case py_or (dict_get (info_filesize i)) (dict_get_default (info_filesize_approx i) 0) of
             Some n \<Rightarrow>
               if n \<noteq> 0 \<and> n > (if is_premium u then PREMIUM_MAX_FILE_SIZE else FREE_MAX_FILE_SIZE)
               then (if true_division_overflows n
                     then (Failure (DownloadFailed ''integer division result too large for a float''),
                           [ExtractInfo url], um1)
                     else (Failure (FileTooLarge n (if is_premium u then ''Premium'' else ''Free'')
                              (if is_premium u then PREMIUM_MAX_FILE_SIZE else FREE_MAX_FILE_SIZE)),
                           [ExtractInfo url], um1))
               else (case download y (make_ydl_opts u format_type) url of
                       Some e \<Rightarrow> (Failure (DownloadFailed e), [ExtractInfo url, Download url], um1)
                     | None \<Rightarrow> (Success (make_media y (make_ydl_opts u format_type) format_type i),
                                [ExtractInfo url, Download url], um1))
           | None \<Rightarrow>
               (case download y (make_ydl_opts u format_type) url of
                  Some e \<Rightarrow> (Failure (DownloadFailed e), [ExtractInfo url, Download url], um1)
                | None \<Rightarrow> (Success (make_media y (make_ydl_opts u format_type) format_type i),
                           [ExtractInfo url, Download url], um1))))"
  using assms get_user_again [OF assms]
  by (cases "is_premium u")
     (simp_all add: download_youtube_video_def get_max_file_size_def truthy_int_def Let_def
        split: sum.splits option.splits)

lemma spec_estimated_size_py_or:
  "spec_estimated_size i = Some n \<Longrightarrow>
   py_or (dict_get (info_filesize i)) (dict_get_default (info_filesize_approx i) 0) = Some n"
  by (auto simp: py_or_def dict_get_def dict_get_default_def truthy_int_def
      spec_estimated_size_def split: field.splits if_splits)

text \<open>
  What the downloader does with an estimate above the maximum of the user's tier. The
  payload is never transferred and the result is a failure, whatever the size is. The
  failure is the too-large failure with the observed size, the tier and its limit as long
  as the size is within the range where the message can be formatted.
\<close>

lemma too_large_is_a_failure_without_download:
  assumes "get_user um user_id now = (u, um1)"
    and "extract_info y (make_ydl_opts u format_type) url = Inr i"
    and "spec_estimated_size i = Some n"
    and "n > (if is_premium u then PREMIUM_MAX_FILE_SIZE else FREE_MAX_FILE_SIZE)"
  shows "download_youtube_video y um url user_id format_type now =
           (Failure
              (if true_division_overflows n
               then DownloadFailed ''integer division result too large for a float''
               else FileTooLarge n (if is_premium u then ''Premium'' else ''Free'')
                      (if is_premium u then PREMIUM_MAX_FILE_SIZE else FREE_MAX_FILE_SIZE)),
            [ExtractInfo url], um1)"
proof -
  have n0: "n \<noteq> 0"
    using assms(4)
    by (auto simp: PREMIUM_MAX_FILE_SIZE_def FREE_MAX_FILE_SIZE_def split: if_splits)
  have est: "py_or (dict_get (info_filesize i)) (dict_get_default (info_filesize_approx i) 0) = Some n"
    using assms(3) by (rule spec_estimated_size_py_or)
  show ?thesis
    using assms(2,4) n0 est
    by (simp add: download_youtube_video_unfold [OF assms(1)])
qed

lemma too_large_within_float_range:
  assumes "get_user um user_id now = (u, um1)"
    and "extract_info y (make_ydl_opts u format_type) url = Inr i"
    and "spec_estimated_size i = Some n"
    and "n > (if is_premium u then PREMIUM_MAX_FILE_SIZE else FREE_MAX_FILE_SIZE)"
    and "n < 2 ^ 1034 - 2 ^ 980"
  shows "download_youtube_video y um url user_id format_type now =
           (Failure (FileTooLarge n (if is_premium u then ''Premium'' else ''Free'')
                       (if is_premium u then PREMIUM_MAX_FILE_SIZE else FREE_MAX_FILE_SIZE)),
            [ExtractInfo url], um1)"
proof -
  have "0 < n"
    using assms(4)
    by (auto simp: PREMIUM_MAX_FILE_SIZE_def FREE_MAX_FILE_SIZE_def split: if_splits)
  with assms(5) have "\<not> true_division_overflows n"
    by (simp add: true_division_overflows_def)
  with too_large_is_a_failure_without_download [OF assms(1-4)] show ?thesis
    by simp
qed

lemma example_80_mib_is_too_large:
  "download_youtube_video (example_ydl example_big_info) example_um
     ''https://youtu.be/abc123'' 7 ''video'' example_day1 =
       (Failure (FileTooLarge 83886080 ''Free'' 52428800),
        [ExtractInfo ''https://youtu.be/abc123''], example_um)"
proof -
  have g: "get_user example_um 7 example_day1 = (example_user, example_um)"
    by (simp add: get_user_def example_um_def)
  have e: "extract_info (example_ydl example_big_info) (make_ydl_opts example_user ''video'')
        ''https://youtu.be/abc123'' = Inr example_big_info"
    by (simp add: example_ydl_def)
  have s: "spec_estimated_size example_big_info = Some 83886080"
    by (simp add: spec_estimated_size_def example_big_info_def example_info_def dict_get_def)
  have n: "83886080 > (if is_premium example_user then PREMIUM_MAX_FILE_SIZE else FREE_MAX_FILE_SIZE)"
    by (simp add: example_user_def FREE_MAX_FILE_SIZE_def)
  have r: "(83886080 :: int) < 2 ^ 1034 - 2 ^ 980"
    by simp
  from too_large_within_float_range [OF g e s n r]
  show ?thesis
    by (simp add: example_user_def FREE_MAX_FILE_SIZE_def)
qed

text \<open>
  Claim C3, at an input where the code departs from it. The metadata gives the file size
  \<open>10 ^ 400\<close>, an integer far above the 50 MiB of the free tier. The downloader enters
  the too-large branch and does not transfer the payload, but building the message
  overflows, and what it returns is the general failure with the text of the overflow:
  neither the observed size nor the limit is in it.
\<close>

theorem huge_size_is_not_reported_as_too_large:
  "get_user example_um 7 example_day1 = (example_user, example_um)
   \<and> extract_info (example_ydl example_huge_info) (make_ydl_opts example_user ''video'')
        ''https://youtu.be/abc123'' = Inr example_huge_info
   \<and> spec_estimated_size example_huge_info = Some (10 ^ 400)
   \<and> (10 ^ 400 :: int) > FREE_MAX_FILE_SIZE
   \<and> download_youtube_video (example_ydl example_huge_info) example_um
        ''https://youtu.be/abc123'' 7 ''video'' example_day1 =
       (Failure (DownloadFailed ''integer division result too large for a float''),
        [ExtractInfo ''https://youtu.be/abc123''], example_um)"
proof -
  have g: "get_user example_um 7 example_day1 = (example_user, example_um)"
    by (simp add: get_user_def example_um_def)
  have e: "extract_info (example_ydl example_huge_info) (make_ydl_opts example_user ''video'')
        ''https://youtu.be/abc123'' = Inr example_huge_info"
    by (simp add: example_ydl_def)
  have s: "spec_estimated_size example_huge_info = Some (10 ^ 400)"
    by (simp add: spec_estimated_size_def example_huge_info_def example_info_def)
  have n: "(10 ^ 400 :: int) > FREE_MAX_FILE_SIZE"
    by (simp add: FREE_MAX_FILE_SIZE_def)
  have n': "10 ^ 400 > (if is_premium example_user then PREMIUM_MAX_FILE_SIZE else FREE_MAX_FILE_SIZE)"
    using n by (simp add: example_user_def)
  have o: "true_division_overflows (10 ^ 400)"
    by (simp add: true_division_overflows_def)
  from too_large_is_a_failure_without_download [OF g e s n'] o g e s n
  show ?thesis
    by simp
qed

text \<open>
  Claim C10. When the metadata has no usable size (the file size and the approximate
  file size are each missing, \<^verbatim>\<open>None\<close> or zero), the size check is skipped whatever the
  tier's maximum is: the downloader goes on to the transfer, and its result is the
  outcome of that transfer.
\<close>

theorem no_size_estimate_goes_to_download:
  assumes "get_user um user_id now = (u, um1)"
    and "extract_info y (make_ydl_opts u format_type) url = Inr i"
    and "info_filesize i \<in> {Absent, PyNone, Val 0}"
    and "info_filesize_approx i \<in> {Absent, PyNone, Val 0}"
  shows "download_youtube_video y um url user_id format_type now =
           ((case download y (make_ydl_opts u format_type) url of
               Some e \<Rightarrow> Failure (DownloadFailed e)
             | None \<Rightarrow> Success (make_media y (make_ydl_opts u format_type) format_type i)),
            [ExtractInfo url, Download url], um1)"
proof -
  have est: "py_or (dict_get (info_filesize i)) (dict_get_default (info_filesize_approx i) 0)
               \<in> {None, Some 0}"
    using assms(3,4)
    by (auto simp: py_or_def dict_get_def dict_get_default_def truthy_int_def)
  show ?thesis
    using assms(2) est
    by (auto simp add: download_youtube_video_unfold [OF assms(1)] split: option.splits)
qed

theorem no_size_estimate_goes_to_download_witness:
  "get_user example_um 7 example_day1 = (example_user, example_um)
   \<and> extract_info (example_ydl example_unsized_info) (make_ydl_opts example_user ''video'')
        ''https://youtu.be/abc123'' = Inr example_unsized_info
   \<and> info_filesize example_unsized_info \<in> {Absent, PyNone, Val 0}
   \<and> info_filesize_approx example_unsized_info \<in> {Absent, PyNone, Val 0}
   \<and> download_youtube_video (example_ydl example_unsized_info) example_um
        ''https://youtu.be/abc123'' 7 ''video'' example_day1 =
       (Success example_media,
        [ExtractInfo ''https://youtu.be/abc123'', Download ''https://youtu.be/abc123''], example_um)"
proof -
  have g: "get_user example_um 7 example_day1 = (example_user, example_um)"
    by (simp add: get_user_def example_um_def)
  have e: "extract_info (example_ydl example_unsized_info) (make_ydl_opts example_user ''video'')
        ''https://youtu.be/abc123'' = Inr example_unsized_info"
    by (simp add: example_ydl_def)
  have f: "info_filesize example_unsized_info \<in> {Absent, PyNone, Val 0}"
    by (simp add: example_unsized_info_def)
  have a: "info_filesize_approx example_unsized_info \<in> {Absent, PyNone, Val 0}"
    by (simp add: example_unsized_info_def)
  from no_size_estimate_goes_to_download [OF g e f a] g e f a
  show ?thesis
    by (simp add: example_ydl_def make_media_def make_description_def dict_get_def
          dict_get_default_def example_unsized_info_def example_info_def example_media_def)
qed

lemma make_description_length: "length (make_description i) \<le> 503"
  by (auto simp: make_description_def split: option.splits)

lemma make_description_cases:
  "make_description i =
     (case info_description i of
        Val d \<Rightarrow> if d \<noteq> [] then take 500 d @ ''...'' else []
      | _ \<Rightarrow> [])"
  by (simp add: make_description_def dict_get_def split: field.splits)

lemma success_from_extract:
  assumes "get_user um user_id now = (u, um1)"
    and "download_youtube_video y um url user_id format_type now = (Success m, io, um')"
  shows "\<exists>i. extract_info y (make_ydl_opts u format_type) url = Inr i
           \<and> m = make_media y (make_ydl_opts u format_type) format_type i"
  using assms(2) unfolding download_youtube_video_unfold [OF assms(1)]
  by (auto split: sum.splits option.splits if_splits)

text \<open>
  Claim C9 as stated fails: a description of 600 characters comes back with 503
  characters, the first 500 followed by three dots.
\<close>

theorem description_longer_than_500:
  "fst (download_youtube_video (example_ydl example_info) example_um
          ''https://youtu.be/abc123'' 7 ''video'' example_day1) = Success example_media
   \<and> length (description example_media) = 503
   \<and> \<not> length (description example_media) \<le> 500"
  by (simp add: download_youtube_video_def get_user_def get_max_file_size_def example_um_def
        example_user_def example_ydl_def example_info_def example_media_def make_media_def
        make_description_def dict_get_def dict_get_default_def py_or_def truthy_int_def
        FREE_MAX_FILE_SIZE_def Let_def)

text \<open>
  Claim C9, amended. A successful download carries the local path of the file (with the
  extension \<^verbatim>\<open>.mp3\<close> when audio was asked for), the title, duration and uploader of the
  metadata (\<^verbatim>\<open>Unknown\<close>, 0 and \<^verbatim>\<open>Unknown\<close> when the metadata lacks them), and as its
  description the first 500 characters of the metadata's description followed by three
  dots, or the empty string when there is no description: at most 503 characters.
\<close>

theorem success_carries_metadata:
  assumes "download_youtube_video y um url user_id format_type now = (Success m, io, um')"
  shows "\<exists>i opts. extract_info y opts url = Inr i
           \<and> filepath m = (if format_type = ''audio''
                            then rsplit_dot_head (prepare_filename y opts i) @ ''.mp3''
                            else prepare_filename y opts i)
           \<and> title m = dict_get_default (info_title i) ''Unknown''
           \<and> duration m = dict_get_default (info_duration i) 0
           \<and> uploader m = dict_get_default (info_uploader i) ''Unknown''
           \<and> description m =
                (case info_description i of
                   Val d \<Rightarrow> if d \<noteq> [] then take 500 d @ ''...'' else []
                 | _ \<Rightarrow> [])
           \<and> length (description m) \<le> 503"
proof -
  obtain u um1 where g: "get_user um user_id now = (u, um1)"
    by (cases "get_user um user_id now") auto
  from success_from_extract [OF g assms]
  obtain i where i: "extract_info y (make_ydl_opts u format_type) url = Inr i"
    and m: "m = make_media y (make_ydl_opts u format_type) format_type i"
    by blast
  have "description m = make_description i"
    using m by (simp add: make_media_def)
  then have d: "description m =
                (case info_description i of
                   Val d \<Rightarrow> if d \<noteq> [] then take 500 d @ ''...'' else []
                 | _ \<Rightarrow> [])"
    and l: "length (description m) \<le> 503"
    by (simp_all add: make_description_cases [symmetric] make_description_length)
  show ?thesis
    using i m d l
    by (intro exI [of _ i] exI [of _ "make_ydl_opts u format_type"]) (simp add: make_media_def)
qed

theorem success_carries_metadata_witness:
  "download_youtube_video (example_ydl example_info) example_um
     ''https://youtu.be/abc123'' 7 ''video'' example_day1 =
       (Success example_media,
        [ExtractInfo ''https://youtu.be/abc123'', Download ''https://youtu.be/abc123''], example_um)
   \<and> (\<exists>i opts. extract_info (example_ydl example_info) opts ''https://youtu.be/abc123'' = Inr i
         \<and> title example_media = dict_get_default (info_title i) ''Unknown''
         \<and> length (description example_media) \<le> 503)"
proof -
  have r: "download_youtube_video (example_ydl example_info) example_um
     ''https://youtu.be/abc123'' 7 ''video'' example_day1 =
       (Success example_media,
        [ExtractInfo ''https://youtu.be/abc123'', Download ''https://youtu.be/abc123''], example_um)"
    by (simp add: download_youtube_video_def get_user_def get_max_file_size_def example_um_def
        example_user_def example_ydl_def example_info_def example_media_def make_media_def
        make_description_def dict_get_def dict_get_default_def py_or_def truthy_int_def
        FREE_MAX_FILE_SIZE_def Let_def)
  from success_carries_metadata [OF r] r show ?thesis
    by blast
qed

section \<open>Properties of the summarizer\<close>

lemma slice_to_length:
  "0 \<le> m \<Longrightarrow> int (length xs) > m \<Longrightarrow> int (length (slice_to m xs)) = m"
  by (simp add: slice_to_def)

lemma example_text_sentences: "length (split_period_space [] example_text) = 4"
  unfolding example_text_def by code_simp

lemma example_text_joined:
  "length (joined_top_sentences (split_period_space [] example_text)) = 429"
  unfolding example_text_def by code_simp

lemma example_text_summary:
  "summarize_with_local_extraction example_text 300 = Summary example_summary"
  unfolding example_text_def example_summary_def by code_simp

lemma example_summary_length: "length example_summary = 304"
  unfolding example_summary_def by simp

text \<open>
  Claim C6 as stated fails: a text of four sentences whose three best sentences joined
  have 429 characters is summarized, at the free limit of 300, to 304 characters, one
  more than the limit plus the three dots.
\<close>

theorem truncated_summary_exceeds_limit_plus_dots:
  "length (split_period_space [] example_text) > 3
   \<and> length (joined_top_sentences (split_period_space [] example_text)) > 300
   \<and> summarize_with_local_extraction example_text 300 = Summary example_summary
   \<and> length example_summary = 304
   \<and> \<not> length example_summary \<le> 300 + length ''...''"
  by (simp add: example_text_sentences example_text_joined example_text_summary
        example_summary_length)

text \<open>
  Claim C6, amended. For a text of more than three sentences whose three best sentences
  joined are longer than the output limit (any limit that is not negative, so 300 and
  500), scored-sentence extraction succeeds and its summary has exactly the limit plus
  the three dots plus the closing period in characters: at most the limit plus the length
  of the dots plus one.
\<close>

theorem truncated_summary_length:
  assumes "length (split_period_space [] text) > 3"
    and "int (length (joined_top_sentences (split_period_space [] text))) > max_length"
    and "0 \<le> max_length"
  shows "\<exists>s. summarize_with_local_extraction text max_length = Summary s
           \<and> int (length s) = max_length + int (length ''...'') + 1"
  using assms
  by (simp add: summarize_with_local_extraction_def Let_def slice_to_length)

theorem truncated_summary_length_witness:
  "length (split_period_space [] example_text) > 3
   \<and> int (length (joined_top_sentences (split_period_space [] example_text))) > 300
   \<and> (0::int) \<le> 300
   \<and> (\<exists>s. summarize_with_local_extraction example_text 300 = Summary s
          \<and> int (length s) = 300 + int (length ''...'') + 1)"
proof -
  have a: "length (split_period_space [] example_text) > 3"
    by (simp add: example_text_sentences)
  have b: "int (length (joined_top_sentences (split_period_space [] example_text))) > 300"
    by (simp add: example_text_joined)
  have c: "(0::int) \<le> 300"
    by simp
  from truncated_summary_length [OF a b c] a b c show ?thesis
    by blast
qed

section \<open>Properties of the router\<close>

lemma contains_iff: "contains s d \<longleftrightarrow> (\<exists>pre post. s = pre @ d @ post)"
proof (induction s)
  case Nil
  then show ?case by auto
next
  case (Cons c cs)
  have pref: "take (length d) (c # cs) = d \<longleftrightarrow> (\<exists>post. c # cs = d @ post)"
  proof
    assume "take (length d) (c # cs) = d"
    then have "c # cs = d @ drop (length d) (c # cs)"
      by (metis append_take_drop_id)
    then show "\<exists>post. c # cs = d @ post" ..
  next
    assume "\<exists>post. c # cs = d @ post"
    then show "take (length d) (c # cs) = d" by auto
  qed
  show ?case
  proof
    assume "contains (c # cs) d"
    then consider "take (length d) (c # cs) = d" | "contains cs d" by auto
    then show "\<exists>pre post. c # cs = pre @ d @ post"
    proof cases
      case 1
      with pref obtain post where "c # cs = [] @ d @ post" by auto
      then show ?thesis by blast
    next
      case 2
      with Cons.IH obtain pre post where "cs = pre @ d @ post" by blast
      then have "c # cs = (c # pre) @ d @ post" by simp
      then show ?thesis by blast
    qed
  next
    assume "\<exists>pre post. c # cs = pre @ d @ post"
    then obtain pre post where e: "c # cs = pre @ d @ post" by blast
    show "contains (c # cs) d"
    proof (cases pre)
      case Nil
      with e have "\<exists>post. c # cs = d @ post" by auto
      with pref have "take (length d) (c # cs) = d" by blast
      then show ?thesis by simp
    next
      case (Cons a pre')
      with e have "cs = pre' @ d @ post" by simp
      with Cons.IH show ?thesis by auto
    qed
  qed
qed

lemma is_youtube_example_media: "is_youtube ''https://youtu.be/abc123''"
  by (simp add: is_youtube_def youtube_domains_def lower_def lower_char_def)

lemma is_youtube_example_article: "\<not> is_youtube ''https://example.com/news/story''"
  by (simp add: is_youtube_def youtube_domains_def lower_def lower_char_def)

text \<open>
  What the router does: it takes a URL for media exactly when the URL as a whole, in
  lower case, contains one of the four markers somewhere, and for a subscribed user such
  a URL goes to the download handler and every other URL to the article handler.
\<close>

lemma router_searches_whole_url:
  "(is_youtube url \<longleftrightarrow>
      (\<exists>pre post. lower url = pre @ ''youtube.com'' @ post)
      \<or> (\<exists>pre post. lower url = pre @ ''youtu.be'' @ post)
      \<or> (\<exists>pre post. lower url = pre @ ''m.youtube.com'' @ post)
      \<or> (\<exists>pre post. lower url = pre @ ''youtube.be'' @ post))
   \<and> (users um (str user_id) = Some u \<and> is_subscribed u \<longrightarrow>
        handle_url cfg w um url user_id now =
          (if is_youtube url then handle_youtube_download cfg w um url user_id now
           else handle_article_summary cfg w um url user_id now))"
proof -
  have "is_youtube url \<longleftrightarrow>
      (\<exists>pre post. lower url = pre @ ''youtube.com'' @ post)
      \<or> (\<exists>pre post. lower url = pre @ ''youtu.be'' @ post)
      \<or> (\<exists>pre post. lower url = pre @ ''m.youtube.com'' @ post)
      \<or> (\<exists>pre post. lower url = pre @ ''youtube.be'' @ post)"
    by (simp add: is_youtube_def youtube_domains_def list_ex_iff contains_iff)
  moreover have "users um (str user_id) = Some u \<and> is_subscribed u \<longrightarrow>
        handle_url cfg w um url user_id now =
          (if is_youtube url then handle_youtube_download cfg w um url user_id now
           else handle_article_summary cfg w um url user_id now)"
    by (simp add: handle_url_def is_subscribed_user_def get_user_def)
  ultimately show ?thesis
    by blast
qed

text \<open>
  Claim C7, at an input where the code departs from it. The two URLs of the claim are
  routed as it says, and there the host decides as the whole URL does. But the router
  never takes the host out of the URL: it looks for the markers in the whole text. The
  URL \<^verbatim>\<open>https://example.com/watch?ref=youtube.com\<close> has the host \<^verbatim>\<open>example.com\<close>, which
  matches no marker, and names \<^verbatim>\<open>youtube.com\<close> in its query string: for a subscribed
  user \<^verbatim>\<open>handle_url\<close> passes it to the download handler, not to the article handler.
\<close>

theorem marker_outside_host_is_media:
  "spec_host ''https://example.com/watch?ref=youtube.com'' = ''example.com''
   \<and> \<not> spec_is_media ''https://example.com/watch?ref=youtube.com''
   \<and> is_youtube ''https://example.com/watch?ref=youtube.com''
   \<and> users example_um (str 7) = Some example_user
   \<and> is_subscribed example_user
   \<and> handle_url default_config example_world example_um
         ''https://example.com/watch?ref=youtube.com'' 7 example_day2 =
       handle_youtube_download default_config example_world example_um
         ''https://example.com/watch?ref=youtube.com'' 7 example_day2
   \<and> is_youtube ''https://youtu.be/abc123''
   \<and> spec_is_media ''https://youtu.be/abc123''
   \<and> \<not> is_youtube ''https://example.com/news/story''
   \<and> \<not> spec_is_media ''https://example.com/news/story''"
proof -
  have a: "spec_host ''https://example.com/watch?ref=youtube.com'' = ''example.com''
   \<and> \<not> spec_is_media ''https://example.com/watch?ref=youtube.com''
   \<and> is_youtube ''https://example.com/watch?ref=youtube.com''"
    by (simp add: is_youtube_def spec_is_media_def spec_host_def youtube_domains_def lower_def
          lower_char_def)
  have k: "users example_um (str 7) = Some example_user" "is_subscribed example_user"
    by (simp_all add: example_um_def example_user_def)
  have r: "handle_url default_config example_world example_um
         ''https://example.com/watch?ref=youtube.com'' 7 example_day2 =
       handle_youtube_download default_config example_world example_um
         ''https://example.com/watch?ref=youtube.com'' 7 example_day2"
    using a k by (simp add: handle_url_def is_subscribed_user_def get_user_def)
  have s: "spec_is_media ''https://youtu.be/abc123''
   \<and> \<not> spec_is_media ''https://example.com/news/story''"
    by (simp add: spec_is_media_def spec_host_def youtube_domains_def lower_def lower_char_def)
  from a k r s is_youtube_example_media is_youtube_example_article show ?thesis
    by blast
qed

section \<open>Properties of the handlers\<close>

lemma can_download_has_user:
  "\<exists>u'. users (snd (can_download cfg um user_id now)) (str user_id) = Some u'"
  by (cases "users um (str user_id)")
     (auto simp: can_download_eq reset_daily_limits_present save_user_data_def put_user_def)

lemma can_summarize_has_user:
  "\<exists>u'. users (snd (can_summarize cfg um user_id now)) (str user_id) = Some u'"
  by (cases "users um (str user_id)")
     (auto simp: can_summarize_eq reset_daily_limits_present save_user_data_def put_user_def)

lemma download_youtube_video_state:
  assumes "users um (str user_id) = Some u"
  shows "snd (snd (download_youtube_video y um url user_id format_type now)) = um"
  unfolding download_youtube_video_unfold [OF get_user_present [OF assms]]
  by (auto split: sum.splits option.splits)

lemma summarize_url_state:
  assumes "users um (str user_id) = Some u"
  shows "snd (snd (summarize_url h um url user_id now)) = um"
  by (auto simp: summarize_url_def get_user_present [OF assms] Let_def split: sum.splits)

lemma increment_download_present:
  "users um (str user_id) = Some u \<Longrightarrow>
   increment_download um user_id now =
     save_user_data (put_user um user_id
       (u\<lparr>downloads_today := downloads_today u + 1, total_downloads := total_downloads u + 1\<rparr>))"
  by (simp add: increment_download_def get_user_present)

lemma increment_summary_present:
  "users um (str user_id) = Some u \<Longrightarrow>
   increment_summary um user_id now =
     save_user_data (put_user um user_id
       (u\<lparr>summaries_today := summaries_today u + 1, total_summaries := total_summaries u + 1\<rparr>))"
  by (simp add: increment_summary_def get_user_present)

lemma users_save_put:
  "users (save_user_data (put_user um user_id v)) = (users um)(str user_id \<mapsto> v)"
  by (simp add: save_user_data_def put_user_def)

lemma handle_youtube_download_unfold:
  assumes c: "can_download cfg um user_id now = (ok, um1)"
    and u1: "users um1 (str user_id) = Some u1"
    and d: "download_youtube_video (ydl_of w) um1 url user_id ''video'' now = (result, io, um2)"
  shows "handle_youtube_download cfg w um url user_id now =
     (if \<not> ok
      then ([Replied (DownloadLimitReached
                (if is_premium u1 then MAX_PREMIUM_DOWNLOADS else MAX_FREE_DOWNLOADS cfg))], um1)
      else (case result of
              Success m \<Rightarrow>
                ([Replied Processing, DownloaderCalled url] @ map Outside io
                   @ [DownloaderReturned result] @ [DownloadCounted]
                   @ (case duration m of
                        None \<Rightarrow> [Replied ErrorOccurred]
                      | Some d \<Rightarrow>
                          if send_video_ok w (filepath m)
                          then Replied (VideoSent m)
                                 # (if remove_file_ok w (filepath m)
                                    then [FileRemoved (filepath m)] else [])
                          else [Replied VideoNotSent]),
                 increment_download um1 user_id now)
            | Failure e \<Rightarrow>
                ([Replied Processing, DownloaderCalled url] @ map Outside io
                   @ [DownloaderReturned result] @ [Replied (DownloadFailedReply e)], um1)))"
proof -
  have um2: "um2 = um1"
    using download_youtube_video_state [OF u1, of "ydl_of w" url "''video''" now] d by simp
  have inc: "users (increment_download um1 user_id now) (str user_id)
               = Some (u1\<lparr>downloads_today := downloads_today u1 + 1,
                          total_downloads := total_downloads u1 + 1\<rparr>)"
    by (simp add: increment_download_present [OF u1] users_save_put)
  show ?thesis
    using c d um2
    by (simp add: handle_youtube_download_def get_user_present [OF u1] get_user_present [OF inc]
          split: download_result.splits)
qed

lemma handle_article_summary_unfold:
  assumes c: "can_summarize cfg um user_id now = (ok, um1)"
    and u1: "users um1 (str user_id) = Some u1"
    and d: "summarize_url (http_get_of w) um1 url user_id now = (result, io, um2)"
  shows "handle_article_summary cfg w um url user_id now =
     (if \<not> ok
      then ([Replied (SummaryLimitReached
                (if is_premium u1 then MAX_PREMIUM_SUMMARIES else MAX_FREE_SUMMARIES cfg))], um1)
      else (case result of
              Summary s \<Rightarrow>
                ([Replied Processing, SummarizerCalled url] @ map Outside io
                   @ [SummarizerReturned result] @ [SummaryCounted, Replied (SummaryReply s)],
                 increment_summary um1 user_id now)
            | SummaryFailure e \<Rightarrow>
                ([Replied Processing, SummarizerCalled url] @ map Outside io
                   @ [SummarizerReturned result] @ [Replied (SummaryFailedReply e)], um1)))"
proof -
  have um2: "um2 = um1"
    using summarize_url_state [OF u1, of "http_get_of w" url now] d by simp
  have inc: "users (increment_summary um1 user_id now) (str user_id)
               = Some (u1\<lparr>summaries_today := summaries_today u1 + 1,
                          total_summaries := total_summaries u1 + 1\<rparr>)"
    by (simp add: increment_summary_present [OF u1] users_save_put)
  show ?thesis
    using c d um2
    by (simp add: handle_article_summary_def get_user_present [OF u1] get_user_present [OF inc]
          split: summary_result.splits)
qed

lemma denied_download_records:
  assumes deny: "\<not> fst (can_download cfg um user_id now)" and k: "users um k = Some u"
  shows "users (snd (can_download cfg um user_id now)) k = Some u
         \<or> (\<not> 0 < MAX_FREE_DOWNLOADS cfg
            \<and> users (snd (can_download cfg um user_id now)) k =
                 Some (u\<lparr>downloads_today := 0, summaries_today := 0, last_reset := date_iso now\<rparr>))"
proof (cases "users um (str user_id)")
  case None
  with k show ?thesis by (auto simp: can_download_eq)
next
  case (Some v)
  show ?thesis
  proof (cases "is_subscribed v \<and> last_reset v \<noteq> date_iso now")
    case False
    with Some k show ?thesis
      by (auto simp: can_download_eq reset_daily_limits_present)
  next
    case True
    with Some deny have lim: "\<not> 0 < MAX_FREE_DOWNLOADS cfg"
      by (auto simp: can_download_eq split: if_splits)
    from True Some k show ?thesis
      by (cases "k = str user_id")
         (auto simp: can_download_eq reset_daily_limits_present users_save_put lim)
  qed
qed

lemma denied_summary_records:
  assumes deny: "\<not> fst (can_summarize cfg um user_id now)" and k: "users um k = Some u"
  shows "users (snd (can_summarize cfg um user_id now)) k = Some u
         \<or> (\<not> 0 < MAX_FREE_SUMMARIES cfg
            \<and> users (snd (can_summarize cfg um user_id now)) k =
                 Some (u\<lparr>downloads_today := 0, summaries_today := 0, last_reset := date_iso now\<rparr>))"
proof (cases "users um (str user_id)")
  case None
  with k show ?thesis by (auto simp: can_summarize_eq)
next
  case (Some v)
  show ?thesis
  proof (cases "is_subscribed v \<and> last_reset v \<noteq> date_iso now")
    case False
    with Some k show ?thesis
      by (auto simp: can_summarize_eq reset_daily_limits_present)
  next
    case True
    with Some deny have lim: "\<not> 0 < MAX_FREE_SUMMARIES cfg"
      by (auto simp: can_summarize_eq split: if_splits)
    from True Some k show ?thesis
      by (cases "k = str user_id")
         (auto simp: can_summarize_eq reset_daily_limits_present users_save_put lim)
  qed
qed

lemma denied_download_handler:
  assumes deny: "\<not> fst (can_download cfg um user_id now)"
  shows "\<exists>limit. handle_youtube_download cfg w um url user_id now =
           ([Replied (DownloadLimitReached limit)], snd (can_download cfg um user_id now))"
proof -
  obtain ok um1 where c: "can_download cfg um user_id now = (ok, um1)"
    by (cases "can_download cfg um user_id now") auto
  from can_download_has_user [of cfg um user_id now] c
  obtain u1 where u1: "users um1 (str user_id) = Some u1" by auto
  obtain result io um2 where
    d: "download_youtube_video (ydl_of w) um1 url user_id ''video'' now = (result, io, um2)"
    by (cases "download_youtube_video (ydl_of w) um1 url user_id ''video'' now") auto
  from deny c show ?thesis
    by (simp add: handle_youtube_download_unfold [OF c u1 d])
qed

lemma denied_summary_handler:
  assumes deny: "\<not> fst (can_summarize cfg um user_id now)"
  shows "\<exists>limit. handle_article_summary cfg w um url user_id now =
           ([Replied (SummaryLimitReached limit)], snd (can_summarize cfg um user_id now))"
proof -
  obtain ok um1 where c: "can_summarize cfg um user_id now = (ok, um1)"
    by (cases "can_summarize cfg um user_id now") auto
  from can_summarize_has_user [of cfg um user_id now] c
  obtain u1 where u1: "users um1 (str user_id) = Some u1" by auto
  obtain result io um2 where
    d: "summarize_url (http_get_of w) um1 url user_id now = (result, io, um2)"
    by (cases "summarize_url (http_get_of w) um1 url user_id now") auto
  from deny c show ?thesis
    by (simp add: handle_article_summary_unfold [OF c u1 d])
qed

lemma download_counted_only_after_success:
  assumes t: "fst (handle_youtube_download cfg w um url user_id now) = pre @ DownloadCounted # post"
  shows "fst (can_download cfg um user_id now) \<and> DownloaderCalled url \<in> set pre
         \<and> (\<exists>m. DownloaderReturned (Success m) \<in> set pre)"
proof -
  obtain ok um1 where c: "can_download cfg um user_id now = (ok, um1)"
    by (cases "can_download cfg um user_id now") auto
  from can_download_has_user [of cfg um user_id now] c
  obtain u1 where u1: "users um1 (str user_id) = Some u1" by auto
  obtain result io um2 where
    d: "download_youtube_video (ydl_of w) um1 url user_id ''video'' now = (result, io, um2)"
    by (cases "download_youtube_video (ydl_of w) um1 url user_id ''video'' now") auto
  note h = handle_youtube_download_unfold [OF c u1 d]
  show ?thesis
  proof (cases ok)
    case False
    with t h have "[Replied (DownloadLimitReached
                (if is_premium u1 then MAX_PREMIUM_DOWNLOADS else MAX_FREE_DOWNLOADS cfg))]
                 = pre @ DownloadCounted # post" by simp
    then have False by (cases pre) auto
    then show ?thesis ..
  next
    case True
    show ?thesis
    proof (cases result)
      case (Failure e)
      with True t h have "DownloadCounted \<in> set ([Replied Processing, DownloaderCalled url] @ map Outside io
                   @ [DownloaderReturned result] @ [Replied (DownloadFailedReply e)])"
        by simp
      then have False by auto
      then show ?thesis ..
    next
      case (Success m)
      let ?called = "[Replied Processing, DownloaderCalled url] @ map Outside io @ [DownloaderReturned result]"
      let ?rest = "(case duration m of
                      None \<Rightarrow> [Replied ErrorOccurred]
                    | Some d \<Rightarrow>
                        if send_video_ok w (filepath m)
                        then Replied (VideoSent m)
                               # (if remove_file_ok w (filepath m)
                                  then [FileRemoved (filepath m)] else [])
                        else [Replied VideoNotSent])"
      from True Success t h have e: "?called @ DownloadCounted # ?rest = pre @ DownloadCounted # post"
        by simp
      have n1: "DownloadCounted \<notin> set ?called" by auto
      have n2: "DownloadCounted \<notin> set ?rest" by (auto split: option.splits)
      from e have "?called = pre"
        using append_Cons_eq_iff [OF n1 n2] by blast
      with Success True c show ?thesis by auto
    qed
  qed
qed

lemma summary_counted_only_after_success:
  assumes t: "fst (handle_article_summary cfg w um url user_id now) = pre @ SummaryCounted # post"
  shows "fst (can_summarize cfg um user_id now) \<and> SummarizerCalled url \<in> set pre
         \<and> (\<exists>s. SummarizerReturned (Summary s) \<in> set pre)"
proof -
  obtain ok um1 where c: "can_summarize cfg um user_id now = (ok, um1)"
    by (cases "can_summarize cfg um user_id now") auto
  from can_summarize_has_user [of cfg um user_id now] c
  obtain u1 where u1: "users um1 (str user_id) = Some u1" by auto
  obtain result io um2 where
    d: "summarize_url (http_get_of w) um1 url user_id now = (result, io, um2)"
    by (cases "summarize_url (http_get_of w) um1 url user_id now") auto
  note h = handle_article_summary_unfold [OF c u1 d]
  show ?thesis
  proof (cases ok)
    case False
    with t h have "[Replied (SummaryLimitReached
                (if is_premium u1 then MAX_PREMIUM_SUMMARIES else MAX_FREE_SUMMARIES cfg))]
                 = pre @ SummaryCounted # post" by simp
    then have False by (cases pre) auto
    then show ?thesis ..
  next
    case True
    show ?thesis
    proof (cases result)
      case (SummaryFailure e)
      with True t h have "SummaryCounted \<in> set ([Replied Processing, SummarizerCalled url] @ map Outside io
                   @ [SummarizerReturned result] @ [Replied (SummaryFailedReply e)])"
        by simp
      then have False by auto
      then show ?thesis ..
    next
      case (Summary s)
      let ?called = "[Replied Processing, SummarizerCalled url] @ map Outside io @ [SummarizerReturned result]"
      let ?rest = "[Replied (SummaryReply s)]"
      from True Summary t h have e: "?called @ SummaryCounted # ?rest = pre @ SummaryCounted # post"
        by simp
      have n1: "SummaryCounted \<notin> set ?called" by auto
      have n2: "SummaryCounted \<notin> set ?rest" by auto
      from e have "?called = pre"
        using append_Cons_eq_iff [OF n1 n2] by blast
      with Summary True c show ?thesis by auto
    qed
  qed
qed

lemma can_download_totals:
  assumes "users um (str user_id) = Some u"
  shows "\<exists>u1. users (snd (can_download cfg um user_id now)) (str user_id) = Some u1
           \<and> total_downloads u1 = total_downloads u \<and> total_summaries u1 = total_summaries u"
  using assms
  by (auto simp: can_download_eq reset_daily_limits_present users_save_put)

lemma can_summarize_totals:
  assumes "users um (str user_id) = Some u"
  shows "\<exists>u1. users (snd (can_summarize cfg um user_id now)) (str user_id) = Some u1
           \<and> total_downloads u1 = total_downloads u \<and> total_summaries u1 = total_summaries u"
  using assms
  by (auto simp: can_summarize_eq reset_daily_limits_present users_save_put)

lemma download_total_counts_trace:
  assumes u: "users um (str user_id) = Some u"
  shows "\<exists>u'. users (snd (handle_youtube_download cfg w um url user_id now)) (str user_id) = Some u'
           \<and> total_downloads u' = total_downloads u
                + (if DownloadCounted \<in> set (fst (handle_youtube_download cfg w um url user_id now))
                   then 1 else 0)"
proof -
  obtain ok um1 where c: "can_download cfg um user_id now = (ok, um1)"
    by (cases "can_download cfg um user_id now") auto
  from can_download_totals [OF u, of cfg now] c
  obtain u1 where u1: "users um1 (str user_id) = Some u1"
    and t1: "total_downloads u1 = total_downloads u" by auto
  obtain result io um2 where
    d: "download_youtube_video (ydl_of w) um1 url user_id ''video'' now = (result, io, um2)"
    by (cases "download_youtube_video (ydl_of w) um1 url user_id ''video'' now") auto
  note h = handle_youtube_download_unfold [OF c u1 d]
  show ?thesis
  proof (cases ok)
    case False
    with h u1 t1 show ?thesis by simp
  next
    case True
    show ?thesis
    proof (cases result)
      case (Failure e)
      with True h u1 t1 show ?thesis by auto
    next
      case (Success m)
      with True h u1 t1 show ?thesis
        by (simp add: increment_download_present [OF u1] users_save_put)
    qed
  qed
qed

lemma summary_total_counts_trace:
  assumes u: "users um (str user_id) = Some u"
  shows "\<exists>u'. users (snd (handle_article_summary cfg w um url user_id now)) (str user_id) = Some u'
           \<and> total_summaries u' = total_summaries u
                + (if SummaryCounted \<in> set (fst (handle_article_summary cfg w um url user_id now))
                   then 1 else 0)"
proof -
  obtain ok um1 where c: "can_summarize cfg um user_id now = (ok, um1)"
    by (cases "can_summarize cfg um user_id now") auto
  from can_summarize_totals [OF u, of cfg now] c
  obtain u1 where u1: "users um1 (str user_id) = Some u1"
    and t1: "total_summaries u1 = total_summaries u" by auto
  obtain result io um2 where
    d: "summarize_url (http_get_of w) um1 url user_id now = (result, io, um2)"
    by (cases "summarize_url (http_get_of w) um1 url user_id now") auto
  note h = handle_article_summary_unfold [OF c u1 d]
  show ?thesis
  proof (cases ok)
    case False
    with h u1 t1 show ?thesis by simp
  next
    case True
    show ?thesis
    proof (cases result)
      case (SummaryFailure e)
      with True h u1 t1 show ?thesis by auto
    next
      case (Summary s)
      with True h u1 t1 show ?thesis
        by (simp add: increment_summary_present [OF u1] users_save_put)
    qed
  qed
qed

lemma denied_download_keeps_records:
  assumes deny: "\<not> fst (can_download cfg um user_id now)" and k: "users um k = Some u"
  shows "users (snd (handle_youtube_download cfg w um url user_id now)) k = Some u
         \<or> (MAX_FREE_DOWNLOADS cfg \<le> 0
            \<and> users (snd (handle_youtube_download cfg w um url user_id now)) k =
                 Some (u\<lparr>downloads_today := 0, summaries_today := 0, last_reset := date_iso now\<rparr>))"
proof -
  from denied_download_handler [OF deny, of w url]
  have "snd (handle_youtube_download cfg w um url user_id now) = snd (can_download cfg um user_id now)"
    by auto
  with denied_download_records [OF deny k] show ?thesis by auto
qed

lemma denied_summary_keeps_records:
  assumes deny: "\<not> fst (can_summarize cfg um user_id now)" and k: "users um k = Some u"
  shows "users (snd (handle_article_summary cfg w um url user_id now)) k = Some u
         \<or> (MAX_FREE_SUMMARIES cfg \<le> 0
            \<and> users (snd (handle_article_summary cfg w um url user_id now)) k =
                 Some (u\<lparr>downloads_today := 0, summaries_today := 0, last_reset := date_iso now\<rparr>))"
proof -
  from denied_summary_handler [OF deny, of w url]
  have "snd (handle_article_summary cfg w um url user_id now) = snd (can_summarize cfg um user_id now)"
    by auto
  with denied_summary_records [OF deny k] show ?thesis by auto
qed

text \<open>
  Claim C2 as stated fails for the daily counters. With the free download limit set to
  zero, a subscribed free user who last used the bot yesterday is refused a download, and
  the pipeline is not called; but the gating check has run the daily reset on the way, so
  \<open>downloads_today\<close> and \<open>summaries_today\<close> have gone from 3 and 2 to zero.
\<close>

theorem denied_download_resets_daily_counters:
  "\<not> fst (can_download zero_downloads_config example_um 7 example_day2)
   \<and> fst (handle_youtube_download zero_downloads_config example_world example_um
            ''https://youtu.be/abc123'' 7 example_day2) = [Replied (DownloadLimitReached 0)]
   \<and> users example_um (str 7) = Some example_user
   \<and> downloads_today example_user = 3 \<and> summaries_today example_user = 2
   \<and> users (snd (handle_youtube_download zero_downloads_config example_world example_um
                    ''https://youtu.be/abc123'' 7 example_day2)) (str 7)
        = Some (example_user\<lparr>downloads_today := 0, summaries_today := 0,
                              last_reset := ''2026-01-02''\<rparr>)"
  by (simp add: handle_youtube_download_def can_download_def reset_daily_limits_def get_user_def
        save_user_data_def put_user_def example_um_def example_user_def example_day2_def
        zero_downloads_config_def Let_def)

text \<open>
  Claim C2, amended. When \<^verbatim>\<open>can_download\<close> answers no, the download handler only
  replies that the limit is reached: the downloader is not called and nothing is asked of
  yt-dlp. Every record of the store is then as it was before, except that with a free
  download limit of zero or less the record may have gone through the daily reset (daily
  counters zero, lifetime counters as before). A download is counted only after the
  gating check has answered yes, the downloader has been called and it has returned
  success; and the user's \<open>total_downloads\<close> after the handler is the one before, plus one
  exactly when the download was counted. The same holds for \<^verbatim>\<open>can_summarize\<close>, the
  summarizer, the free summary limit and \<open>total_summaries\<close>.
\<close>

theorem gate_then_pipeline_then_count:
  "(\<not> fst (can_download cfg um user_id now) \<longrightarrow>
      (\<exists>limit. fst (handle_youtube_download cfg w um url user_id now)
                  = [Replied (DownloadLimitReached limit)])
      \<and> (\<forall>k u. users um k = Some u \<longrightarrow>
            users (snd (handle_youtube_download cfg w um url user_id now)) k = Some u
            \<or> (MAX_FREE_DOWNLOADS cfg \<le> 0
               \<and> users (snd (handle_youtube_download cfg w um url user_id now)) k =
                    Some (u\<lparr>downloads_today := 0, summaries_today := 0,
                           last_reset := date_iso now\<rparr>))))
   \<and> (\<forall>pre post.
         fst (handle_youtube_download cfg w um url user_id now) = pre @ DownloadCounted # post \<longrightarrow>
           fst (can_download cfg um user_id now) \<and> DownloaderCalled url \<in> set pre
           \<and> (\<exists>m. DownloaderReturned (Success m) \<in> set pre))
   \<and> (\<forall>u. users um (str user_id) = Some u \<longrightarrow>
         (\<exists>u'. users (snd (handle_youtube_download cfg w um url user_id now)) (str user_id) = Some u'
            \<and> total_downloads u' = total_downloads u
                 + (if DownloadCounted \<in> set (fst (handle_youtube_download cfg w um url user_id now))
                    then 1 else 0)))
   \<and> (\<not> fst (can_summarize cfg um user_id now) \<longrightarrow>
      (\<exists>limit. fst (handle_article_summary cfg w um url user_id now)
                  = [Replied (SummaryLimitReached limit)])
      \<and> (\<forall>k u. users um k = Some u \<longrightarrow>
            users (snd (handle_article_summary cfg w um url user_id now)) k = Some u
            \<or> (MAX_FREE_SUMMARIES cfg \<le> 0
               \<and> users (snd (handle_article_summary cfg w um url user_id now)) k =
                    Some (u\<lparr>downloads_today := 0, summaries_today := 0,
                           last_reset := date_iso now\<rparr>))))
   \<and> (\<forall>pre post.
         fst (handle_article_summary cfg w um url user_id now) = pre @ SummaryCounted # post \<longrightarrow>
           fst (can_summarize cfg um user_id now) \<and> SummarizerCalled url \<in> set pre
           \<and> (\<exists>s. SummarizerReturned (Summary s) \<in> set pre))
   \<and> (\<forall>u. users um (str user_id) = Some u \<longrightarrow>
         (\<exists>u'. users (snd (handle_article_summary cfg w um url user_id now)) (str user_id) = Some u'
            \<and> total_summaries u' = total_summaries u
                 + (if SummaryCounted \<in> set (fst (handle_article_summary cfg w um url user_id now))
                    then 1 else 0)))"
proof (intro conjI impI allI)
  assume deny: "\<not> fst (can_download cfg um user_id now)"
  from denied_download_handler [OF deny, of w url]
  show "\<exists>limit. fst (handle_youtube_download cfg w um url user_id now)
                  = [Replied (DownloadLimitReached limit)]"
    by auto
next
  fix k u
  assume "\<not> fst (can_download cfg um user_id now)" and "users um k = Some u"
  then show "users (snd (handle_youtube_download cfg w um url user_id now)) k = Some u
            \<or> (MAX_FREE_DOWNLOADS cfg \<le> 0
               \<and> users (snd (handle_youtube_download cfg w um url user_id now)) k =
                    Some (u\<lparr>downloads_today := 0, summaries_today := 0,
                           last_reset := date_iso now\<rparr>))"
    by (rule denied_download_keeps_records)
next
  fix pre post
  assume t: "fst (handle_youtube_download cfg w um url user_id now) = pre @ DownloadCounted # post"
  from download_counted_only_after_success [OF t]
  show "fst (can_download cfg um user_id now)" "DownloaderCalled url \<in> set pre"
    "\<exists>m. DownloaderReturned (Success m) \<in> set pre"
    by auto
next
  fix u
  assume "users um (str user_id) = Some u"
  then show "\<exists>u'. users (snd (handle_youtube_download cfg w um url user_id now)) (str user_id) = Some u'
            \<and> total_downloads u' = total_downloads u
                 + (if DownloadCounted \<in> set (fst (handle_youtube_download cfg w um url user_id now))
                    then 1 else 0)"
    by (rule download_total_counts_trace)
next
  assume deny: "\<not> fst (can_summarize cfg um user_id now)"
  from denied_summary_handler [OF deny, of w url]
  show "\<exists>limit. fst (handle_article_summary cfg w um url user_id now)
                  = [Replied (SummaryLimitReached limit)]"
    by auto
next
  fix k u
  assume "\<not> fst (can_summarize cfg um user_id now)" and "users um k = Some u"
  then show "users (snd (handle_article_summary cfg w um url user_id now)) k = Some u
            \<or> (MAX_FREE_SUMMARIES cfg \<le> 0
               \<and> users (snd (handle_article_summary cfg w um url user_id now)) k =
                    Some (u\<lparr>downloads_today := 0, summaries_today := 0,
                           last_reset := date_iso now\<rparr>))"
    by (rule denied_summary_keeps_records)
next
  fix pre post
  assume t: "fst (handle_article_summary cfg w um url user_id now) = pre @ SummaryCounted # post"
  from summary_counted_only_after_success [OF t]
  show "fst (can_summarize cfg um user_id now)" "SummarizerCalled url \<in> set pre"
    "\<exists>s. SummarizerReturned (Summary s) \<in> set pre"
    by auto
next
  fix u
  assume "users um (str user_id) = Some u"
  then show "\<exists>u'. users (snd (handle_article_summary cfg w um url user_id now)) (str user_id) = Some u'
            \<and> total_summaries u' = total_summaries u
                 + (if SummaryCounted \<in> set (fst (handle_article_summary cfg w um url user_id now))
                    then 1 else 0)"
    by (rule summary_total_counts_trace)
qed

lemma example_download_trace:
  "fst (handle_youtube_download default_config example_world example_um
            ''https://youtu.be/abc123'' 7 example_day2) =
   [Replied Processing, DownloaderCalled ''https://youtu.be/abc123'',
    Outside (ExtractInfo ''https://youtu.be/abc123''), Outside (Download ''https://youtu.be/abc123''),
    DownloaderReturned (Success example_media), DownloadCounted,
    Replied (VideoSent example_media), FileRemoved ''downloads/Clip_abc123.mp4'']"
  by (simp add: handle_youtube_download_def can_download_def reset_daily_limits_def get_user_def
        save_user_data_def put_user_def example_um_def example_user_def example_day2_def
        default_config_def Let_def download_youtube_video_def get_max_file_size_def
        example_world_def example_ydl_def example_info_def example_media_def make_media_def
        make_description_def dict_get_def dict_get_default_def py_or_def truthy_int_def
        FREE_MAX_FILE_SIZE_def MAX_PREMIUM_DOWNLOADS_def increment_download_def)

lemma example_text_strip: "strip example_text = example_text"
  unfolding example_text_def by code_simp

lemma example_text_collapse: "collapse_whitespace example_text = example_text"
  unfolding example_text_def by code_simp

lemma example_text_length: "length example_text = 464"
  unfolding example_text_def by simp

lemma example_summarize_url:
  "users um (str user_id) = Some u \<Longrightarrow> \<not> is_premium u \<Longrightarrow>
   summarize_url (http_get_of example_world) um url user_id now =
     (Summary example_summary, [HttpGet url], um)"
  by (simp add: summarize_url_def get_user_present example_world_def example_response_def
        example_text_strip example_text_collapse example_text_length summarize_text_def
        example_text_summary Let_def)

lemma example_article_trace: "fst (handle_article_summary default_config example_world example_um
            ''https://example.com/news/story'' 7 example_day2) =
   [Replied Processing, SummarizerCalled ''https://example.com/news/story'',
    Outside (HttpGet ''https://example.com/news/story''),
    SummarizerReturned (Summary example_summary), SummaryCounted,
    Replied (SummaryReply example_summary)]"
proof -
  have c: "can_summarize default_config example_um 7 example_day2
             = (True, reset_daily_limits example_um 7 example_day2)"
    by (simp add: can_summarize_eq example_um_def example_user_def example_day2_def default_config_def)
  have u1: "users (reset_daily_limits example_um 7 example_day2) (str 7)
              = Some (example_user\<lparr>downloads_today := 0, summaries_today := 0, last_reset := ''2026-01-02''\<rparr>)"
    by (simp add: reset_daily_limits_def get_user_def example_um_def example_user_def
          example_day2_def users_save_put Let_def)
  have d: "summarize_url (http_get_of example_world) (reset_daily_limits example_um 7 example_day2)
             ''https://example.com/news/story'' 7 example_day2 =
           (Summary example_summary, [HttpGet ''https://example.com/news/story''],
            reset_daily_limits example_um 7 example_day2)"
    by (rule example_summarize_url [OF u1]) (simp add: example_user_def)
  show ?thesis
    by (simp add: handle_article_summary_unfold [OF c u1 d])
qed

theorem gate_then_pipeline_then_count_witness:
  "\<not> fst (can_download default_config example_spent_um 7 example_day1)
   \<and> \<not> fst (can_summarize default_config example_spent_um 7 example_day1)
   \<and> users example_spent_um (str 7) = Some (example_user\<lparr>summaries_today := 5\<rparr>)
   \<and> fst (handle_youtube_download default_config example_world example_spent_um
             ''https://youtu.be/abc123'' 7 example_day1) = [Replied (DownloadLimitReached 3)]
   \<and> users (snd (handle_youtube_download default_config example_world example_spent_um
                     ''https://youtu.be/abc123'' 7 example_day1)) (str 7)
         = Some (example_user\<lparr>summaries_today := 5\<rparr>)
   \<and> fst (handle_article_summary default_config example_world example_spent_um
             ''https://example.com/news/story'' 7 example_day1) = [Replied (SummaryLimitReached 5)]
   \<and> users (snd (handle_article_summary default_config example_world example_spent_um
                     ''https://example.com/news/story'' 7 example_day1)) (str 7)
         = Some (example_user\<lparr>summaries_today := 5\<rparr>)
   \<and> fst (can_download default_config example_um 7 example_day2)
   \<and> DownloadCounted \<in> set (fst (handle_youtube_download default_config example_world example_um
                                     ''https://youtu.be/abc123'' 7 example_day2))
   \<and> (\<exists>u'. users (snd (handle_youtube_download default_config example_world example_um
                           ''https://youtu.be/abc123'' 7 example_day2)) (str 7) = Some u'
          \<and> total_downloads u' = 10)
   \<and> fst (can_summarize default_config example_um 7 example_day2)
   \<and> SummaryCounted \<in> set (fst (handle_article_summary default_config example_world example_um
                                    ''https://example.com/news/story'' 7 example_day2))
   \<and> (\<exists>u'. users (snd (handle_article_summary default_config example_world example_um
                           ''https://example.com/news/story'' 7 example_day2)) (str 7) = Some u'
          \<and> total_summaries u' = 5)"
proof -
  let ?yt = "''https://youtu.be/abc123''"
  let ?news = "''https://example.com/news/story''"
  let ?spent = "example_user\<lparr>summaries_today := 5\<rparr>"
  have d1: "\<not> fst (can_download default_config example_spent_um 7 example_day1)"
    by (simp add: can_download_eq example_spent_um_def example_user_def example_day1_def
          default_config_def)
  have s1: "\<not> fst (can_summarize default_config example_spent_um 7 example_day1)"
    by (simp add: can_summarize_eq example_spent_um_def example_user_def example_day1_def
          default_config_def)
  have k1: "users example_spent_um (str 7) = Some ?spent"
    by (simp add: example_spent_um_def)
  have k2: "users example_um (str 7) = Some example_user"
    by (simp add: example_um_def)
  have lim: "\<not> MAX_FREE_DOWNLOADS default_config \<le> 0" "\<not> MAX_FREE_SUMMARIES default_config \<le> 0"
    by (simp_all add: default_config_def)
  have prem: "\<not> is_premium ?spent"
    by (simp add: example_user_def)
  note A = gate_then_pipeline_then_count
             [of default_config example_spent_um 7 example_day1 example_world ?yt]
  note A' = gate_then_pipeline_then_count
             [of default_config example_spent_um 7 example_day1 example_world ?news]
  note B = gate_then_pipeline_then_count
             [of default_config example_um 7 example_day2 example_world ?yt]
  note B' = gate_then_pipeline_then_count
             [of default_config example_um 7 example_day2 example_world ?news]
  have a1: "users (snd (handle_youtube_download default_config example_world example_spent_um
                     ?yt 7 example_day1)) (str 7) = Some ?spent"
    using A d1 k1 lim by blast
  have a2: "users (snd (handle_article_summary default_config example_world example_spent_um
                     ?news 7 example_day1)) (str 7) = Some ?spent"
    using A' s1 k1 lim by blast
  have t1: "fst (handle_youtube_download default_config example_world example_spent_um
             ?yt 7 example_day1) = [Replied (DownloadLimitReached 3)]"
    by (simp add: handle_youtube_download_def can_download_def reset_daily_limits_def get_user_def
          example_spent_um_def example_user_def example_day1_def default_config_def Let_def)
  have t2: "fst (handle_article_summary default_config example_world example_spent_um
             ?news 7 example_day1) = [Replied (SummaryLimitReached 5)]"
    by (simp add: handle_article_summary_def can_summarize_def reset_daily_limits_def get_user_def
          example_spent_um_def example_user_def example_day1_def default_config_def Let_def)
  have c3: "DownloadCounted \<in> set (fst (handle_youtube_download default_config example_world
              example_um ?yt 7 example_day2))"
    by (simp add: example_download_trace)
  have c4: "SummaryCounted \<in> set (fst (handle_article_summary default_config example_world
              example_um ?news 7 example_day2))"
    by (simp add: example_article_trace)
  have e3: "fst (handle_youtube_download default_config example_world example_um ?yt 7 example_day2)
              = [Replied Processing, DownloaderCalled ?yt, Outside (ExtractInfo ?yt),
                 Outside (Download ?yt), DownloaderReturned (Success example_media)]
                @ DownloadCounted # [Replied (VideoSent example_media),
                                     FileRemoved ''downloads/Clip_abc123.mp4'']"
    by (simp add: example_download_trace)
  have e4: "fst (handle_article_summary default_config example_world example_um ?news 7 example_day2)
              = [Replied Processing, SummarizerCalled ?news, Outside (HttpGet ?news),
                 SummarizerReturned (Summary example_summary)]
                @ SummaryCounted # [Replied (SummaryReply example_summary)]"
    by (simp add: example_article_trace)
  have b3: "fst (can_download default_config example_um 7 example_day2)"
    using B e3 by blast
  have b4: "fst (can_summarize default_config example_um 7 example_day2)"
    using B' e4 by blast
  have td: "total_downloads example_user = 9" "total_summaries example_user = 4"
    by (simp_all add: example_user_def)
  have b5: "\<exists>u'. users (snd (handle_youtube_download default_config example_world example_um
                           ?yt 7 example_day2)) (str 7) = Some u' \<and> total_downloads u' = 10"
    using B k2 c3 td by fastforce
  have b6: "\<exists>u'. users (snd (handle_article_summary default_config example_world example_um
                           ?news 7 example_day2)) (str 7) = Some u' \<and> total_summaries u' = 5"
    using B' k2 c4 td by fastforce
  from d1 s1 k1 t1 a1 t2 a2 b3 c3 b5 b4 c4 b6 show ?thesis
    by blast
qed

end
